theory Spec2Isabelle
  imports Complex_Main
begin

section \<open>Values, events and the environment\<close>

text \<open>
  The orchestrator (\<^verbatim>\<open>src/power_manager/cli.py\<close>) is a script of effects: it writes
  log lines, prints, sleeps, launches subprocesses, talks to the compositor and waits on
  two \<^verbatim>\<open>threading.Event\<close> latches that a reader thread sets. Its model threads an
  explicit state through every call and records each effect of the primary flow, in order,
  in the field \<open>trace\<close>. What the collaborators answer (the discovery of the script, the
  session query, the boot-entry helper, the compositor, the animation subprocess) is the
  parameter \<open>world\<close>. Durations are seconds.

  An f-string is the list of its pieces: literal text, an interpolated integer, an
  interpolated duration, or the text of a caught exception (which is not modelled).
  Strings hold ASCII characters.
\<close>

datatype piece = S string | I int | T rat | X

type_synonym message = "piece list"

datatype latch = Ready | Black

text \<open>What the reader thread meets next on the subprocess's standard output: a line, the
  end of the stream (the subprocess has exited), or an exception raised by the read.\<close>

datatype out_item = Line string | Exited | ReadError

datatype exn =
    TypeError | ValueError | OverflowError | OSError | FileNotFoundError | PermissionError

text \<open>A call returns a value, raises, or (inside \<^verbatim>\<open>while True\<close>) is still holding when
  the fuel given to the loop is used up.\<close>

datatype 'a result = Returned 'a | Raised exn | Holding

datatype event =
    DebugLog message
  | PrintOut message
  | PrintErr message
  | Sleep rat
  | Popen "string list"
  | Run "string list"
  | SendIpc string bool
  | EventWait latch rat bool
  | ProcTerminate
  | ProcWait rat bool
  | ProcKill
  | InstallSignalHandlers
  | InitDebugLog

record world =
  animation_script :: "string \<Rightarrow> string option"
  path_exists :: "string \<Rightarrow> bool"
  loginctl_output :: "string option"
  efibootmgr_returncode :: int
  efibootmgr_stderr :: string
  ipc_ok :: "nat \<Rightarrow> string \<Rightarrow> bool"
  child_output :: "(rat \<times> out_item) list"
  exits_on_sigterm :: bool
  launch_error :: "string list \<Rightarrow> exn option"
  rejects_sleep :: "rat \<Rightarrow> bool"

datatype reader_status = NotStarted | Reading | Finished

record state =
  script_path :: "string option"
  process :: "string list option"
  ready_event :: bool
  black_event :: bool
  reader :: reader_status
  child_alive :: bool
  pending :: "(rat \<times> out_item) list"
  clock :: rat
  ipc_calls :: nat
  trace :: "event list"
  reader_log :: "message list"

type_synonym 'a m = "state \<Rightarrow> 'a result \<times> state"

definition returns :: "'a \<Rightarrow> 'a m" where
  "returns x s = (Returned x, s)"

definition raise :: "exn \<Rightarrow> 'a m" where
  "raise e s = (Raised e, s)"

definition and_then :: "'a m \<Rightarrow> ('a \<Rightarrow> 'b m) \<Rightarrow> 'b m" where
  "and_then f g s =
     (case f s of
        (Returned x, s') \<Rightarrow> g x s'
      | (Raised e, s') \<Rightarrow> (Raised e, s')
      | (Holding, s') \<Rightarrow> (Holding, s'))"

fun block :: "unit m list \<Rightarrow> unit m" where
  "block [] s = (Returned (), s)"
| "block (f # fs) s = and_then f (\<lambda>_. block fs) s"

definition skip :: "unit m" where
  "skip = returns ()"

definition emit :: "event \<Rightarrow> unit m" where
  "emit e s = (Returned (), s\<lparr>trace := trace s @ [e]\<rparr>)"

definition debug_log :: "message \<Rightarrow> unit m" where
  "debug_log msg = emit (DebugLog msg)"

definition print :: "message \<Rightarrow> unit m" where
  "print msg = emit (PrintOut msg)"

definition print_err :: "message \<Rightarrow> unit m" where
  "print_err msg = emit (PrintErr msg)"

text \<open>The subprocess commands a trace issued, in order.\<close>

fun commands :: "event list \<Rightarrow> string list list" where
  "commands [] = []"
| "commands (Popen c # es) = c # commands es"
| "commands (Run c # es) = c # commands es"
| "commands (e # es) = commands es"

section \<open>Strings\<close>

text \<open>\<^verbatim>\<open>str.strip()\<close> and \<^verbatim>\<open>str.split()\<close> on ASCII text: the white space characters are
  tab, line feed, vertical tab, form feed, carriage return, the four separators
  \<^verbatim>\<open>0x1c\<close> to \<^verbatim>\<open>0x1f\<close>, and the space.\<close>

definition is_space :: "char \<Rightarrow> bool" where
  "is_space c = (let n = (of_char c :: nat) in (9 \<le> n \<and> n \<le> 13) \<or> (28 \<le> n \<and> n \<le> 31) \<or> n = 32)"

definition strip :: "string \<Rightarrow> string" where
  "strip s = rev (dropWhile is_space (rev (dropWhile is_space s)))"

fun split_on :: "char \<Rightarrow> string \<Rightarrow> string list" where
  "split_on sep [] = [[]]"
| "split_on sep (c # cs) =
     (if c = sep then [] # split_on sep cs
      else (case split_on sep cs of w # ws \<Rightarrow> (c # w) # ws | [] \<Rightarrow> [[c]]))"

fun split_ws_acc :: "string \<Rightarrow> string \<Rightarrow> string list" where
  "split_ws_acc cur [] = (if cur = [] then [] else [cur])"
| "split_ws_acc cur (c # cs) =
     (if is_space c then (if cur = [] then split_ws_acc [] cs else cur # split_ws_acc [] cs)
      else split_ws_acc (cur @ [c]) cs)"

definition split_ws :: "string \<Rightarrow> string list" where
  "split_ws s = split_ws_acc [] s"

fun join :: "string \<Rightarrow> string list \<Rightarrow> string" where
  "join sep [] = []"
| "join sep [x] = x"
| "join sep (x # y # ys) = x @ sep @ join sep (y # ys)"

section \<open>The reader thread and the two latches\<close>

definition event_set :: "latch \<Rightarrow> state \<Rightarrow> state" where
  "event_set l s = (case l of Ready \<Rightarrow> s\<lparr>ready_event := True\<rparr> | Black \<Rightarrow> s\<lparr>black_event := True\<rparr>)"

definition is_set :: "latch \<Rightarrow> state \<Rightarrow> bool" where
  "is_set l s = (case l of Ready \<Rightarrow> ready_event s | Black \<Rightarrow> black_event s)"

definition reader_debug_log :: "message \<Rightarrow> state \<Rightarrow> state" where
  "reader_debug_log msg s = s\<lparr>reader_log := reader_log s @ [msg]\<rparr>"

text \<open>The body of the loop of \<^verbatim>\<open>_read_signals\<close>, for one line.\<close>

definition on_line :: "string \<Rightarrow> state \<Rightarrow> state" where
  "on_line raw s =
     (let line = strip raw;
          s1 = reader_debug_log [S ''Animation signal: '', S line] s
      in if line = ''READY'' then event_set Ready s1
         else if line = ''BLACK'' then event_set Black s1
         else s1)"

text \<open>The \<^verbatim>\<open>finally\<close> clause of \<^verbatim>\<open>_read_signals\<close>; the thread ends after it.\<close>

definition read_signals_finally :: "state \<Rightarrow> state" where
  "read_signals_finally s = (event_set Black (event_set Ready s))\<lparr>reader := Finished\<rparr>"

text \<open>\<^verbatim>\<open>_read_signals\<close> on what the stream delivers. On the empty list the thread is
  blocked in the next read: it has not left its loop.\<close>

fun read_signals :: "out_item list \<Rightarrow> state \<Rightarrow> state" where
  "read_signals [] s = s"
| "read_signals (Line raw # rest) s = read_signals rest (on_line raw s)"
| "read_signals (Exited # rest) s = read_signals_finally s"
| "read_signals (ReadError # rest) s =
     read_signals_finally (reader_debug_log [S ''Error reading animation signals: '', X] s)"

text \<open>The environment: one item of the subprocess's output arrives. The reader thread
  handles it if it is still in its loop.\<close>

definition deliver :: "out_item \<Rightarrow> state \<Rightarrow> state" where
  "deliver x s =
     (let s1 = (case x of Exited \<Rightarrow> s\<lparr>child_alive := False\<rparr> | _ \<Rightarrow> s)
      in if reader s1 = Reading then read_signals [x] s1 else s1)"

text \<open>Time passes until \<open>t\<close>: the output due by then is delivered, in order.\<close>

fun run_reader :: "rat \<Rightarrow> (rat \<times> out_item) list \<Rightarrow> state \<Rightarrow> state" where
  "run_reader t [] s = s\<lparr>pending := []\<rparr>"
| "run_reader t ((u, x) # rest) s =
     (if u \<le> t then run_reader t rest (deliver x s)
      else s\<lparr>pending := (u, x) # rest\<rparr>)"

definition advance_to :: "rat \<Rightarrow> state \<Rightarrow> state" where
  "advance_to t s = (run_reader t (pending s) s)\<lparr>clock := max (clock s) t\<rparr>"

text \<open>\<^verbatim>\<open>Event.wait(timeout)\<close>, up to the deadline \<open>d\<close>: it returns at once when the flag
  is set, and otherwise as soon as the reader thread sets it, or at the deadline.\<close>

fun await :: "latch \<Rightarrow> rat \<Rightarrow> (rat \<times> out_item) list \<Rightarrow> state \<Rightarrow> bool \<times> state" where
  "await l d [] s =
     (if is_set l s then (True, s\<lparr>pending := []\<rparr>)
      else (False, s\<lparr>pending := [], clock := max (clock s) d\<rparr>))"
| "await l d ((u, x) # rest) s =
     (if is_set l s then (True, s\<lparr>pending := (u, x) # rest\<rparr>)
      else if u \<le> d then await l d rest (deliver x (s\<lparr>clock := max (clock s) u\<rparr>))
      else (False, s\<lparr>pending := (u, x) # rest, clock := max (clock s) d\<rparr>))"

definition event_wait :: "latch \<Rightarrow> rat \<Rightarrow> bool m" where
  "event_wait l timeout s =
     (case await l (clock s + timeout) (pending s) s of
        (r, s') \<Rightarrow> (Returned r, s'\<lparr>trace := trace s' @ [EventWait l timeout r]\<rparr>))"

text \<open>\<^verbatim>\<open>time.sleep\<close> first converts the length to nanoseconds and raises
  \<^verbatim>\<open>OverflowError\<close> when that does not fit a signed 64-bit integer (for a whole number of
  seconds: beyond 9223372036 either way; the bound is exact for whole numbers), then raises
  \<^verbatim>\<open>ValueError\<close> on a negative length. A length that passes both can still be refused by
  the operating system, with \<^verbatim>\<open>OSError\<close>, when the end of the sleep lies beyond what its
  clock represents (on Linux about 9223372036 seconds minus the uptime): lengths up to
  2147483648 seconds are taken to be accepted, and for a longer one \<open>rejects_sleep w\<close> says
  whether the system refuses it.\<close>

definition sleep_error :: "world \<Rightarrow> rat \<Rightarrow> exn option" where
  "sleep_error w d =
     (if d * 1000000000 < - 9223372036854775808 \<or> 9223372036854775807 < d * 1000000000
      then Some OverflowError
      else if d < 0 then Some ValueError
      else if 2147483648 < d \<and> rejects_sleep w d then Some OSError
      else None)"

definition sleep :: "world \<Rightarrow> rat \<Rightarrow> unit m" where
  "sleep w d s =
     (case sleep_error w d of
        Some e \<Rightarrow> (Raised e, s)
      | None \<Rightarrow> (Returned (), advance_to (clock s + d) (s\<lparr>trace := trace s @ [Sleep d]\<rparr>)))"

definition env :: "(state \<Rightarrow> state) \<Rightarrow> unit m" where
  "env f s = (Returned (), f s)"

section \<open>AnimationProcess\<close>

definition AnimationProcess :: "string option \<Rightarrow> state \<Rightarrow> state" where
  "AnimationProcess path s =
     s\<lparr>script_path := path, process := None, ready_event := False, black_event := False,
       reader := NotStarted\<rparr>"

text \<open>\<^verbatim>\<open>subprocess.Popen\<close> of the animation and the start of the reader thread. The times
  of \<open>child_output\<close> count from the launch.\<close>

definition spawn_animation :: "world \<Rightarrow> string \<Rightarrow> unit m" where
  "spawn_animation w p s =
     (Returned (),
      s\<lparr>process := Some [''python3'', p], child_alive := True,
        pending := map (\<lambda>(u, x). (clock s + u, x)) (child_output w),
        trace := trace s @ [Popen [''python3'', p]]\<rparr>)"

definition start_reader_thread :: "unit m" where
  "start_reader_thread s = (Returned (), s\<lparr>reader := Reading\<rparr>)"

text \<open>\<^verbatim>\<open>os.path.exists(None)\<close> raises \<^verbatim>\<open>TypeError\<close>.\<close>

definition start :: "world \<Rightarrow> bool m" where
  "start w s =
     (case script_path s of
        None \<Rightarrow> raise TypeError s
      | Some p \<Rightarrow>
          if \<not> path_exists w p then
            and_then
              (block [debug_log [S ''ERROR: Animation script not found: '', S p],
                      print_err [S ''ERROR: Animation script not found: '', S p]])
              (\<lambda>_. returns False) s
          else
            and_then
              (block [debug_log [S ''Starting animation: '', S p],
                      spawn_animation w p,
                      start_reader_thread])
              (\<lambda>_. returns True) s)"

definition wait_ready :: "rat \<Rightarrow> bool m" where
  "wait_ready timeout =
     and_then (debug_log [S ''Waiting for READY signal (timeout='', T timeout, S ''s)'']) (\<lambda>_.
     and_then (event_wait Ready timeout) (\<lambda>result.
     and_then (if \<not> result then debug_log [S ''WARNING: Timeout waiting for READY signal'']
               else skip) (\<lambda>_.
     returns result)))"

definition wait_black :: "rat \<Rightarrow> bool m" where
  "wait_black timeout =
     and_then (debug_log [S ''Waiting for BLACK signal (timeout='', T timeout, S ''s)'']) (\<lambda>_.
     and_then (event_wait Black timeout) (\<lambda>result.
     and_then (if \<not> result then debug_log [S ''WARNING: Timeout waiting for BLACK signal'']
               else skip) (\<lambda>_.
     returns result)))"

definition is_running :: "state \<Rightarrow> bool" where
  "is_running s = (process s \<noteq> None \<and> child_alive s)"

text \<open>The environment: the subprocess is gone, so its output ends there.\<close>

definition child_exits :: "state \<Rightarrow> state" where
  "child_exits s = (deliver Exited s)\<lparr>pending := []\<rparr>"

text \<open>\<^verbatim>\<open>process.wait(timeout)\<close> after \<^verbatim>\<open>process.terminate()\<close>: \<open>True\<close> when the subprocess
  is gone within the timeout, \<open>False\<close> for \<^verbatim>\<open>TimeoutExpired\<close>. \<open>exits_on_sigterm w\<close> says
  whether the subprocess obeys the signal in time.\<close>

definition process_wait :: "world \<Rightarrow> rat \<Rightarrow> bool m" where
  "process_wait w timeout s =
     (if exits_on_sigterm w \<or> \<not> child_alive s then
        and_then (block [env child_exits, emit (ProcWait timeout True)]) (\<lambda>_. returns True) s
      else
        (let s1 = advance_to (clock s + timeout) s
         in if \<not> child_alive s1 then
              and_then (block [env child_exits, emit (ProcWait timeout True)])
                (\<lambda>_. returns True) s1
            else and_then (emit (ProcWait timeout False)) (\<lambda>_. returns False) s1))"

definition terminate :: "world \<Rightarrow> unit m" where
  "terminate w s =
     (case process s of
        None \<Rightarrow> returns () s
      | Some _ \<Rightarrow>
          and_then (emit ProcTerminate) (\<lambda>_.
          and_then (process_wait w 2) (\<lambda>exited.
            if exited then skip
            else block [emit ProcKill, env child_exits])) s)"

section \<open>Compositor IPC\<close>

text \<open>\<^verbatim>\<open>send_ipc\<close> catches every exception; whether the \<open>n\<close>-th call of the run succeeds
  is \<open>ipc_ok w n\<close>.\<close>

definition send_ipc :: "world \<Rightarrow> string \<Rightarrow> bool m" where
  "send_ipc w method s =
     (let ok = ipc_ok w (ipc_calls s) method;
          s1 = s\<lparr>ipc_calls := Suc (ipc_calls s), trace := trace s @ [SendIpc method ok]\<rparr>
      in if ok then (Returned True, s1)
         else and_then (debug_log [S ''WARNING: IPC '', S method, S '' failed: '', X])
                (\<lambda>_. returns False) s1)"

text \<open>The loop of \<^verbatim>\<open>send_ipc_with_retry\<close> over the attempts left of
  \<^verbatim>\<open>range(max_attempts)\<close>.\<close>

fun retry_loop :: "world \<Rightarrow> string \<Rightarrow> int \<Rightarrow> rat \<Rightarrow> int list \<Rightarrow> bool m" where
  "retry_loop w method max_attempts delay [] s =
     and_then (debug_log [S ''ERROR: '', S method, S '' failed after '', I max_attempts,
                          S '' attempts''])
       (\<lambda>_. returns False) s"
| "retry_loop w method max_attempts delay (attempt # rest) s =
     and_then (send_ipc w method) (\<lambda>ok.
       if ok then returns True
       else if attempt < max_attempts - 1 then
         and_then (block [debug_log [S ''Retrying '', S method, S '' in '', T delay,
                                     S ''s (attempt '', I (attempt + 1), S ''/'', I max_attempts,
                                     S '')''],
                          sleep w delay])
           (\<lambda>_. retry_loop w method max_attempts delay rest)
       else retry_loop w method max_attempts delay rest) s"

definition send_ipc_with_retry :: "world \<Rightarrow> string \<Rightarrow> int \<Rightarrow> rat \<Rightarrow> bool m" where
  "send_ipc_with_retry w method max_attempts delay =
     retry_loop w method max_attempts delay [0..max_attempts - 1]"

definition unfreeze_compositor :: "world \<Rightarrow> bool \<Rightarrow> unit m" where
  "unfreeze_compositor w retry =
     and_then (if retry then send_ipc_with_retry w ''screen-freeze/unfreeze'' 5 1
               else send_ipc w ''screen-freeze/unfreeze'')
       (\<lambda>success. if success then debug_log [S ''Compositor unfrozen''] else skip)"

definition show_cursor :: "world \<Rightarrow> bool \<Rightarrow> unit m" where
  "show_cursor w retry =
     and_then (if retry then send_ipc_with_retry w ''cursor-control/show'' 5 1
               else send_ipc w ''cursor-control/show'')
       (\<lambda>success. if success then debug_log [S ''Cursor restored''] else skip)"

section \<open>The action dispatcher\<close>

definition POWER_COMMANDS :: "(string \<times> string list option) list" where
  "POWER_COMMANDS =
     [(''shutdown'', Some [''sudo'', ''-A'', ''shutdown'', ''-h'', ''now'']),
      (''reboot'', Some [''sudo'', ''-A'', ''reboot'']),
      (''logout'', Some [''loginctl'', ''terminate-session'', '''']),
      (''suspend'', Some [''systemctl'', ''suspend'']),
      (''hibernate'', Some [''systemctl'', ''hibernate'']),
      (''windows'', Some [''sudo'', ''-A'', ''reboot'']),
      (''test'', None)]"

text \<open>\<^verbatim>\<open>POWER_COMMANDS.get(action)\<close>: \<^verbatim>\<open>None\<close> for the test action and for a missing key.\<close>

definition get_command :: "string \<Rightarrow> string list option" where
  "get_command action = (case map_of POWER_COMMANDS action of None \<Rightarrow> None | Some c \<Rightarrow> c)"

text \<open>The loop of \<^verbatim>\<open>get_session_id\<close> over the lines of the output.\<close>

fun first_token :: "string list \<Rightarrow> string" where
  "first_token [] = ''''"
| "first_token (line # rest) =
     (case split_ws line of [] \<Rightarrow> first_token rest | part # _ \<Rightarrow> part)"

text \<open>\<open>loginctl_output w\<close> is the standard output of the session query, or \<open>None\<close> when
  running it raises (the exception is caught). \<open>session_id_found\<close> is the value that
  \<^verbatim>\<open>get_session_id\<close> returns.\<close>

definition session_id_found :: "world \<Rightarrow> string" where
  "session_id_found w =
     (case loginctl_output w of
        None \<Rightarrow> ''''
      | Some out \<Rightarrow> first_token (split_on (CHR 0x0A) (strip out)))"

definition get_session_id :: "world \<Rightarrow> string m" where
  "get_session_id w =
     and_then (emit (Run [''loginctl'', ''list-sessions'', ''--no-legend'']))
       (\<lambda>_. returns (session_id_found w))"

section \<open>The power action\<close>

text \<open>\<^verbatim>\<open>while True: time.sleep(1)\<close>, with fuel: it never returns.\<close>

fun hold_until_killed :: "world \<Rightarrow> nat \<Rightarrow> unit m" where
  "hold_until_killed w 0 s = (Holding, s)"
| "hold_until_killed w (Suc n) s = and_then (sleep w 1) (\<lambda>_. hold_until_killed w n) s"

text \<open>\<^verbatim>\<open>subprocess.Popen(cmd)\<close> of the power command: it raises when the command cannot be
  executed (\<^verbatim>\<open>FileNotFoundError\<close>, \<^verbatim>\<open>PermissionError\<close>), which \<open>launch_error w cmd\<close> tells;
  nothing is launched then.\<close>

definition popen :: "world \<Rightarrow> string list \<Rightarrow> unit m" where
  "popen w cmd s =
     (case launch_error w cmd of
        Some e \<Rightarrow> (Raised e, s)
      | None \<Rightarrow> emit (Popen cmd) s)"

text \<open>The tail of \<^verbatim>\<open>execute_power_action\<close>, from the boot entry on, with the command
  resolved. \<open>animation\<close> says whether an \<^verbatim>\<open>AnimationProcess\<close> was passed; its fields are in
  the state.\<close>

definition launch_and_hold :: "world \<Rightarrow> nat \<Rightarrow> string \<Rightarrow> bool \<Rightarrow> string list \<Rightarrow> unit m" where
  "launch_and_hold w fuel action animation cmd =
     block
      [if action = ''windows'' then
         block
          [debug_log [S ''Setting Windows boot entry...''],
           emit (Run [''sudo'', ''-A'', ''efibootmgr'', ''--bootnext'', ''0003'']),
           if efibootmgr_returncode w \<noteq> 0 then
             block
              [debug_log [S ''WARNING: efibootmgr failed: '', S (efibootmgr_stderr w)],
               print_err [S ''WARNING: Could not set Windows boot entry'']]
           else skip]
       else skip,
       debug_log [S ''Executing power action: '', S (join '' '' cmd)],
       print [S ''Executing: '', S (join '' '' cmd)],
       popen w cmd,
       if action = ''suspend'' \<or> action = ''hibernate'' then
         block
          [debug_log [S ''Waiting for resume from suspend/hibernate...''],
           sleep w 3,
           if animation then terminate w else skip,
           unfreeze_compositor w True,
           show_cursor w True,
           debug_log [S ''Resumed from suspend/hibernate, compositor unfrozen'']]
       else
         block
          [debug_log [S ''Holding until system shuts down...''],
           hold_until_killed w fuel]]"

definition execute_power_action :: "world \<Rightarrow> nat \<Rightarrow> string \<Rightarrow> bool \<Rightarrow> int \<Rightarrow> unit m" where
  "execute_power_action w fuel action animation hold_time =
     (case get_command action of
        None \<Rightarrow>
          block
           [debug_log [S ''[TEST] Animation complete, waiting '', I hold_time, S '' seconds...''],
            print [S ''[TEST] Animation complete. Waiting '', I hold_time, S '' seconds...''],
            sleep w (of_int hold_time),
            if animation then terminate w else skip,
            unfreeze_compositor w False,
            show_cursor w False,
            debug_log [S ''[TEST] Done''],
            print [S ''[TEST] Done.'']]
      | Some cmd \<Rightarrow>
          if action = ''logout'' then
            and_then (get_session_id w) (\<lambda>session_id.
              if session_id \<noteq> '''' then
                and_then (debug_log [S ''Logout: using session ID '', S session_id]) (\<lambda>_.
                  launch_and_hold w fuel action animation
                    [''loginctl'', ''terminate-session'', session_id])
              else
                block
                 [debug_log [S ''ERROR: Could not determine session ID for logout''],
                  print_err [S ''ERROR: Could not determine session ID for logout''],
                  if animation then terminate w else skip])
          else launch_and_hold w fuel action animation cmd)"

text \<open>The tail of \<^verbatim>\<open>run_without_animation\<close>, from the boot entry on.\<close>

definition run_command :: "string \<Rightarrow> string list \<Rightarrow> unit m" where
  "run_command action cmd =
     block
      [if action = ''windows'' then
         emit (Run [''sudo'', ''-A'', ''efibootmgr'', ''--bootnext'', ''0003''])
       else skip,
       debug_log [S ''Executing: '', S (join '' '' cmd)],
       emit (Run cmd)]"

definition run_without_animation :: "world \<Rightarrow> string \<Rightarrow> int \<Rightarrow> unit m" where
  "run_without_animation w action hold_time =
     block
      [debug_log [S ''Running without animation: '', S action],
       print [S ''Executing '', S action, S '' (no animation)...''],
       case get_command action of
         None \<Rightarrow>
           block
            [debug_log [S ''[TEST] No animation, waiting '', I hold_time, S '' seconds...''],
             print [S ''[TEST] No animation. Waiting '', I hold_time, S '' seconds...''],
             sleep w (of_int hold_time),
             debug_log [S ''[TEST] Done''],
             print [S ''[TEST] Done.'']]
       | Some cmd \<Rightarrow>
           if action = ''logout'' then
             and_then (get_session_id w) (\<lambda>session_id.
               if session_id \<noteq> '''' then
                 run_command action [''loginctl'', ''terminate-session'', session_id]
               else print_err [S ''ERROR: Could not determine session ID for logout''])
           else run_command action cmd]"

section \<open>The driver\<close>

text \<open>What \<^verbatim>\<open>parse_args\<close> hands to \<^verbatim>\<open>main\<close>.\<close>

record args =
  args_action :: string
  args_animation :: string
  args_hold :: int

definition initial :: state where
  "initial =
     \<lparr>script_path = None, process = None, ready_event = False, black_event = False,
      reader = NotStarted, child_alive = False, pending = [], clock = 0, ipc_calls = 0,
      trace = [], reader_log = []\<rparr>"

definition main :: "world \<Rightarrow> nat \<Rightarrow> args \<Rightarrow> int m" where
  "main w fuel a =
     and_then
       (block
         [emit InstallSignalHandlers,
          emit InitDebugLog,
          debug_log [S ''Starting power-manager: action='', S (args_action a),
                     S '', animation='', S (args_animation a)]]) (\<lambda>_.
     if args_animation a = ''none'' then
       and_then (run_without_animation w (args_action a) (args_hold a)) (\<lambda>_. returns 0)
     else
       and_then
         (block
           [print [S ''[1/3] Starting '', S (args_animation a), S '' animation...''],
            env (AnimationProcess (animation_script w (args_animation a)))]) (\<lambda>_.
       and_then (start w) (\<lambda>started.
       if \<not> started then
         and_then (print_err [S ''ERROR: Failed to start animation'']) (\<lambda>_. returns 1)
       else
         and_then (print [S ''[2/3] Waiting for overlay...'']) (\<lambda>_.
         and_then (wait_ready 5) (\<lambda>ready.
         and_then
           (block
             [if \<not> ready then
                print_err [S ''WARNING: Animation did not signal READY, proceeding anyway'']
              else skip,
              print [S ''[3/3] Animation playing...'']]) (\<lambda>_.
         and_then (wait_black 30) (\<lambda>black.
         and_then
           (block
             [if \<not> black then
                print_err [S ''WARNING: Animation did not signal BLACK, proceeding anyway'']
              else skip,
              print [S ''Animation complete.''],
              debug_log [S ''Executing power action...''],
              execute_power_action w fuel (args_action a) True (args_hold a)]) (\<lambda>_.
         returns 0))))))))"

section \<open>The operations of an AnimationProcess\<close>

text \<open>Every method of the class after construction, and the reader thread consuming a
  stretch of output, as one step on the state; a history of the object is a list of them.\<close>

datatype anim_op =
    OpStart
  | OpReadSignals "out_item list"
  | OpWaitReady rat
  | OpWaitBlack rat
  | OpIsRunning
  | OpTerminate

fun apply_op :: "world \<Rightarrow> anim_op \<Rightarrow> state \<Rightarrow> state" where
  "apply_op w OpStart s = snd (start w s)"
| "apply_op w (OpReadSignals items) s = read_signals items s"
| "apply_op w (OpWaitReady timeout) s = snd (wait_ready timeout s)"
| "apply_op w (OpWaitBlack timeout) s = snd (wait_black timeout s)"
| "apply_op w OpIsRunning s = (if is_running s then s else s)"
| "apply_op w OpTerminate s = snd (terminate w s)"

fun apply_ops :: "world \<Rightarrow> anim_op list \<Rightarrow> state \<Rightarrow> state" where
  "apply_ops w [] s = s"
| "apply_ops w (op # ops) s = apply_ops w ops (apply_op w op s)"

text \<open>The events a call added to the trace.\<close>

definition new_events :: "state \<Rightarrow> state \<Rightarrow> event list" where
  "new_events s s' = drop (length (trace s)) (trace s')"

text \<open>A trace without its log lines and prints.\<close>

fun effects :: "event list \<Rightarrow> event list" where
  "effects [] = []"
| "effects (DebugLog m # es) = effects es"
| "effects (PrintOut m # es) = effects es"
| "effects (PrintErr m # es) = effects es"
| "effects (e # es) = e # effects es"

text \<open>The shape of a retried request: \<open>k\<close> failed attempts, each followed by a sleep of
  one second, then a last attempt with outcome \<open>b\<close>.\<close>

definition retry_pattern :: "string \<Rightarrow> nat \<Rightarrow> bool \<Rightarrow> event list" where
  "retry_pattern method k b =
     concat (replicate k [SendIpc method False, Sleep 1]) @ [SendIpc method b]"

text \<open>Worlds for the examples: a machine where the animation is installed, prints both
  sentinels and ignores the termination signal, where the session query answers, the
  boot-entry helper fails and the compositor answers from the third request on; and a
  machine whose animation prints nothing and whose compositor never answers.\<close>

definition sample_world :: world where
  "sample_world =
     \<lparr>animation_script = (\<lambda>name. Some (''/anim/'' @ name @ ''/animate.py'')),
      path_exists = (\<lambda>_. True),
      loginctl_output = Some ''  3 1000 user seat0 tty2'',
      efibootmgr_returncode = 1,
      efibootmgr_stderr = ''denied'',
      ipc_ok = (\<lambda>n _. 2 \<le> n),
      child_output = [(1, Line ''READY''), (7, Line ''BLACK'')],
      exits_on_sigterm = False,
      launch_error = (\<lambda>_. None),
      rejects_sleep = (\<lambda>_. False)\<rparr>"

definition silent_world :: world where
  "silent_world =
     sample_world\<lparr>loginctl_output := None, ipc_ok := (\<lambda>_ _. False), child_output := []\<rparr>"


text \<open>A machine whose animation prints one line and dies one second after its launch.\<close>

definition crashing_world :: world where
  "crashing_world = sample_world\<lparr>child_output := [(1, Line ''Traceback''), (1, Exited)]\<rparr>"

text \<open>The arguments of an animated shutdown, for the examples.\<close>

definition shutdown_args :: args where
  "shutdown_args = \<lparr>args_action = ''shutdown'', args_animation = ''fire'', args_hold = 3\<rparr>"

text \<open>The state a call leaves, and the answer of a call that returns a truth value.\<close>

definition post :: "'a m \<Rightarrow> state \<Rightarrow> state" where
  "post f s = snd (f s)"

definition answer :: "bool m \<Rightarrow> state \<Rightarrow> bool" where
  "answer f s = (fst (f s) = Returned True)"

text \<open>For the proofs: a property of event lists that holds of the empty list and of
  concatenations; a call adds events with the property; and a property that every event
  other than a subprocess command has.\<close>

definition closed :: "(event list \<Rightarrow> bool) \<Rightarrow> bool" where
  "closed P \<longleftrightarrow> P [] \<and> (\<forall>xs ys. P xs \<longrightarrow> P ys \<longrightarrow> P (xs @ ys))"

definition adds :: "(event list \<Rightarrow> bool) \<Rightarrow> state \<Rightarrow> state \<Rightarrow> bool" where
  "adds P s s' \<longleftrightarrow> (\<exists>evs. trace s' = trace s @ evs \<and> P evs)"

definition tolerant :: "(event list \<Rightarrow> bool) \<Rightarrow> bool" where
  "tolerant P \<longleftrightarrow> closed P \<and> (\<forall>e. commands [e] = [] \<longrightarrow> P [e])"

section \<open>Properties of the latches and of the subprocess handle\<close>

lemma is_set_other_fields [simp]:
  "is_set l (s\<lparr>pending := p\<rparr>) = is_set l s"
  "is_set l (s\<lparr>clock := c\<rparr>) = is_set l s"
  "is_set l (s\<lparr>trace := tr\<rparr>) = is_set l s"
  "is_set l (s\<lparr>reader_log := rl\<rparr>) = is_set l s"
  "is_set l (s\<lparr>child_alive := ca\<rparr>) = is_set l s"
  "is_set l (s\<lparr>reader := rd\<rparr>) = is_set l s"
  "is_set l (s\<lparr>process := pr\<rparr>) = is_set l s"
  "is_set l (s\<lparr>ipc_calls := n\<rparr>) = is_set l s"
  by (cases l; simp add: is_set_def)+

lemma is_set_event_set: "is_set l s \<Longrightarrow> is_set l (event_set k s)"
  by (cases l; cases k; simp add: is_set_def event_set_def)

lemma is_set_event_set_same [simp]: "is_set l (event_set l s)"
  by (cases l; simp add: is_set_def event_set_def)

lemma is_set_on_line: "is_set l s \<Longrightarrow> is_set l (on_line raw s)"
  by (simp add: on_line_def Let_def reader_debug_log_def is_set_event_set)

lemma is_set_finally: "is_set l (read_signals_finally s)"
  by (cases l; simp add: read_signals_finally_def is_set_event_set)

lemma is_set_read_signals: "is_set l s \<Longrightarrow> is_set l (read_signals items s)"
  by (induction items s rule: read_signals.induct) (simp_all add: is_set_on_line is_set_finally)

lemma is_set_deliver: "is_set l s \<Longrightarrow> is_set l (deliver x s)"
  by (cases x) (simp_all add: deliver_def Let_def is_set_on_line is_set_finally)

lemma is_set_run_reader: "is_set l s \<Longrightarrow> is_set l (run_reader t items s)"
  by (induction t items s rule: run_reader.induct) (simp_all add: is_set_deliver)

lemma is_set_advance_to: "is_set l s \<Longrightarrow> is_set l (advance_to t s)"
  by (simp add: advance_to_def is_set_run_reader)

lemma await_set: "is_set l s \<Longrightarrow> await l d items s = (True, s\<lparr>pending := items\<rparr>)"
  by (cases items) auto

lemma is_set_await: "is_set k s \<Longrightarrow> is_set k (snd (await l d items s))"
  by (induction l d items s rule: await.induct) (simp_all add: is_set_deliver)

lemma await_True: "await l d items s = (True, s') \<Longrightarrow> is_set l s'"
  by (induction l d items s rule: await.induct) (auto split: if_splits)

lemma is_set_event_wait: "is_set k s \<Longrightarrow> is_set k (snd (event_wait l timeout s))"
  using is_set_await[of k s l "clock s + timeout" "pending s"]
  by (auto simp: event_wait_def split: prod.splits)

lemma is_set_sleep: "is_set k s \<Longrightarrow> is_set k (snd (sleep w d s))"
  by (simp add: sleep_def is_set_advance_to split: option.splits)

lemma is_set_wait_ready: "is_set k s \<Longrightarrow> is_set k (snd (wait_ready timeout s))"
  using is_set_event_wait[of k "s\<lparr>trace := trace s @ [DebugLog [S ''Waiting for READY signal (timeout='', T timeout, S ''s)'']]\<rparr>" Ready timeout]
  by (auto simp: wait_ready_def and_then_def debug_log_def emit_def returns_def skip_def
      split: prod.splits result.splits)

lemma is_set_wait_black: "is_set k s \<Longrightarrow> is_set k (snd (wait_black timeout s))"
  using is_set_event_wait[of k "s\<lparr>trace := trace s @ [DebugLog [S ''Waiting for BLACK signal (timeout='', T timeout, S ''s)'']]\<rparr>" Black timeout]
  by (auto simp: wait_black_def and_then_def debug_log_def emit_def returns_def skip_def
      split: prod.splits result.splits)

lemma is_set_child_exits: "is_set k s \<Longrightarrow> is_set k (child_exits s)"
  by (simp add: child_exits_def is_set_deliver)

lemma is_set_process_wait: "is_set k s \<Longrightarrow> is_set k (snd (process_wait w timeout s))"
  by (simp add: process_wait_def and_then_def env_def emit_def returns_def Let_def
      is_set_child_exits is_set_advance_to)

lemma is_set_terminate: "is_set k s \<Longrightarrow> is_set k (snd (terminate w s))"
  using is_set_process_wait[of k "s\<lparr>trace := trace s @ [ProcTerminate]\<rparr>" w 2]
  by (auto simp: terminate_def and_then_def env_def emit_def returns_def skip_def
      is_set_child_exits split: option.splits prod.splits result.splits)

lemma is_set_start: "is_set k s \<Longrightarrow> is_set k (snd (start w s))"
  by (simp add: start_def and_then_def env_def emit_def returns_def raise_def debug_log_def
      print_err_def spawn_animation_def start_reader_thread_def split: option.splits)

lemma is_set_apply_op: "is_set k s \<Longrightarrow> is_set k (apply_op w op s)"
  by (cases op) (simp_all add: is_set_start is_set_read_signals is_set_wait_ready
      is_set_wait_black is_set_terminate)

lemma is_set_apply_ops: "is_set k s \<Longrightarrow> is_set k (apply_ops w ops s)"
  by (induction ops arbitrary: s) (simp_all add: is_set_apply_op)


lemma wait_ready_set:
  "ready_event s \<Longrightarrow>
   wait_ready timeout s =
     (Returned True,
      s\<lparr>trace := trace s @ [DebugLog [S ''Waiting for READY signal (timeout='', T timeout, S ''s)''],
                             EventWait Ready timeout True]\<rparr>)"
  by (simp add: wait_ready_def and_then_def debug_log_def emit_def event_wait_def await_set
      is_set_def skip_def returns_def)

lemma wait_black_set:
  "black_event s \<Longrightarrow>
   wait_black timeout s =
     (Returned True,
      s\<lparr>trace := trace s @ [DebugLog [S ''Waiting for BLACK signal (timeout='', T timeout, S ''s)''],
                             EventWait Black timeout True]\<rparr>)"
  by (simp add: wait_black_def and_then_def debug_log_def emit_def event_wait_def await_set
      is_set_def skip_def returns_def)

lemma read_signals_lines: "read_signals (map Line ls @ rest) s = read_signals rest (read_signals (map Line ls) s)"
  by (induction ls arbitrary: s) simp_all

lemma read_signals_end:
  "e = Exited \<or> e = ReadError \<Longrightarrow>
   ready_event (read_signals [e] s) \<and> black_event (read_signals [e] s) \<and> reader (read_signals [e] s) = Finished"
  by (auto simp: read_signals_finally_def event_set_def reader_debug_log_def)

text \<open>
  Claim C1. If the output of the animation subprocess ends, because the subprocess exits or
  because reading raises, then the reader thread leaves its loop with both latches set,
  whatever lines came before; and after any further operations on the object, \<^verbatim>\<open>wait_ready\<close>
  and \<^verbatim>\<open>wait_black\<close> return \<^verbatim>\<open>True\<close> for every timeout, changing nothing but the trace:
  the clock does not move, so they do not block.
\<close>

theorem reader_exit_sets_both_latches:
  assumes "e = Exited \<or> e = ReadError"
  shows "let s' = read_signals (map Line ls @ [e]) s; s'' = apply_ops w ops s' in
     ready_event s' \<and> black_event s' \<and> reader s' = Finished \<and>
     wait_ready t1 s'' = (Returned True,
        s''\<lparr>trace := trace s'' @ [DebugLog [S ''Waiting for READY signal (timeout='', T t1, S ''s)''],
                             EventWait Ready t1 True]\<rparr>) \<and>
     wait_black t2 s'' = (Returned True,
        s''\<lparr>trace := trace s'' @ [DebugLog [S ''Waiting for BLACK signal (timeout='', T t2, S ''s)''],
                             EventWait Black t2 True]\<rparr>)"
proof -
  define s' where "s' = read_signals (map Line ls @ [e]) s"
  define s'' where "s'' = apply_ops w ops s'"
  have fin: "ready_event s' \<and> black_event s' \<and> reader s' = Finished"
    unfolding s'_def read_signals_lines using read_signals_end[OF assms] by blast
  have "is_set Ready s'" "is_set Black s'"
    using fin by (simp_all add: is_set_def)
  then have "is_set Ready s''" "is_set Black s''"
    unfolding s''_def by (simp_all add: is_set_apply_ops)
  then have "ready_event s''" "black_event s''"
    by (simp_all add: is_set_def)
  then show ?thesis
    using fin wait_ready_set[of s'' t1] wait_black_set[of s'' t2]
    by (simp add: Let_def s'_def[symmetric] s''_def[symmetric])
qed

theorem reader_exit_sets_both_latches_witness:
  "let s' = read_signals (map Line [''starting''] @ [Exited]) initial;
       s'' = apply_ops silent_world [OpTerminate, OpIsRunning] s' in
     ready_event s' \<and> black_event s' \<and> reader s' = Finished \<and>
     wait_ready 5 s'' = (Returned True,
        s''\<lparr>trace := trace s'' @ [DebugLog [S ''Waiting for READY signal (timeout='', T 5, S ''s)''],
                             EventWait Ready 5 True]\<rparr>) \<and>
     wait_black 30 s'' = (Returned True,
        s''\<lparr>trace := trace s'' @ [DebugLog [S ''Waiting for BLACK signal (timeout='', T 30, S ''s)''],
                             EventWait Black 30 True]\<rparr>)"
  by (rule reader_exit_sets_both_latches) simp

text \<open>In a whole run: the animation dies after one second without a sentinel, both waits
  succeed, and the run ends at time 1, not after the timeouts of 5 and 30 seconds.\<close>

lemma crashed_animation_does_not_block:
  "effects (trace (snd (main crashing_world 0
      \<lparr>args_action = ''test'', args_animation = ''fire'', args_hold = 0\<rparr> initial))) =
     [InstallSignalHandlers, InitDebugLog, Popen [''python3'', ''/anim/fire/animate.py''],
      EventWait Ready 5 True, EventWait Black 30 True, Sleep 0, ProcTerminate, ProcWait 2 True,
      SendIpc ''screen-freeze/unfreeze'' False, SendIpc ''cursor-control/show'' False]"
  "clock (snd (main crashing_world 0
      \<lparr>args_action = ''test'', args_animation = ''fire'', args_hold = 0\<rparr> initial)) = 1"
  by code_simp+

text \<open>
  Claim C2. The latches are monotonic and idempotent: a latch that is set stays set through
  any sequence of operations of the object; setting it again changes nothing; a late or
  duplicate sentinel line only adds a line to the log; and a wait on a set latch returns
  \<^verbatim>\<open>True\<close> at once, changing nothing but the trace.
\<close>

theorem latches_monotonic_idempotent:
  "(is_set l s \<longrightarrow> is_set l (apply_ops w ops s))
   \<and> event_set l (event_set l s) = event_set l s
   \<and> (ready_event s \<and> strip raw = ''READY'' \<longrightarrow>
        on_line raw s = reader_debug_log [S ''Animation signal: '', S ''READY''] s)
   \<and> (black_event s \<and> strip raw = ''BLACK'' \<longrightarrow>
        on_line raw s = reader_debug_log [S ''Animation signal: '', S ''BLACK''] s)
   \<and> (ready_event s \<longrightarrow>
        wait_ready timeout s = (Returned True,
          s\<lparr>trace := trace s @ [DebugLog [S ''Waiting for READY signal (timeout='', T timeout, S ''s)''],
                                 EventWait Ready timeout True]\<rparr>))
   \<and> (black_event s \<longrightarrow>
        wait_black timeout s = (Returned True,
          s\<lparr>trace := trace s @ [DebugLog [S ''Waiting for BLACK signal (timeout='', T timeout, S ''s)''],
                                 EventWait Black timeout True]\<rparr>))"
proof -
  have a: "event_set l (event_set l s) = event_set l s"
    by (cases l) (simp_all add: event_set_def)
  have b: "ready_event s \<and> strip raw = ''READY'' \<longrightarrow>
        on_line raw s = reader_debug_log [S ''Animation signal: '', S ''READY''] s"
    by (simp add: on_line_def Let_def event_set_def reader_debug_log_def)
  have c: "black_event s \<and> strip raw = ''BLACK'' \<longrightarrow>
        on_line raw s = reader_debug_log [S ''Animation signal: '', S ''BLACK''] s"
    by (simp add: on_line_def Let_def event_set_def reader_debug_log_def)
  show ?thesis
    using a b c is_set_apply_ops[of l s w ops] wait_ready_set[of s timeout]
      wait_black_set[of s timeout]
    by blast
qed

theorem latches_monotonic_idempotent_witness:
  "ready_event (on_line ''READY'' initial)
   \<and> is_set Ready (apply_ops sample_world [OpWaitBlack 30, OpTerminate, OpReadSignals [Line ''BLACK'']]
        (on_line ''READY'' initial))
   \<and> on_line ''READY'' (on_line ''READY'' initial)
       = reader_debug_log [S ''Animation signal: '', S ''READY''] (on_line ''READY'' initial)
   \<and> fst (wait_ready 5 (on_line ''READY'' initial)) = Returned True
   \<and> clock (snd (wait_ready 5 (on_line ''READY'' initial))) = clock (on_line ''READY'' initial)"
proof -
  have st: "strip ''READY'' = ''READY''"
    by (simp add: strip_def is_space_def)
  have h: "ready_event (on_line ''READY'' initial)"
    by (simp add: on_line_def st event_set_def reader_debug_log_def)
  then have h': "is_set Ready (on_line ''READY'' initial)"
    by (simp add: is_set_def)
  show ?thesis
    using h h' st
      latches_monotonic_idempotent[of Ready "on_line ''READY'' initial" sample_world
        "[OpWaitBlack 30, OpTerminate, OpReadSignals [Line ''BLACK'']]" "''READY''" 5]
    by simp
qed

lemma frame_on_line [simp]:
  "trace (on_line raw s) = trace s" "process (on_line raw s) = process s"
  "ipc_calls (on_line raw s) = ipc_calls s" "clock (on_line raw s) = clock s"
  by (simp_all add: on_line_def Let_def event_set_def reader_debug_log_def)

lemma frame_finally [simp]:
  "trace (read_signals_finally s) = trace s" "process (read_signals_finally s) = process s"
  "ipc_calls (read_signals_finally s) = ipc_calls s" "clock (read_signals_finally s) = clock s"
  by (simp_all add: read_signals_finally_def event_set_def)

lemma frame_deliver [simp]:
  "trace (deliver x s) = trace s" "process (deliver x s) = process s"
  "ipc_calls (deliver x s) = ipc_calls s" "clock (deliver x s) = clock s"
  by (cases x; simp add: deliver_def Let_def reader_debug_log_def)+

lemma frame_run_reader [simp]:
  "trace (run_reader t items s) = trace s" "process (run_reader t items s) = process s"
  "ipc_calls (run_reader t items s) = ipc_calls s"
  by (induction t items s rule: run_reader.induct; simp)+

lemma frame_advance_to [simp]:
  "trace (advance_to t s) = trace s" "process (advance_to t s) = process s"
  "ipc_calls (advance_to t s) = ipc_calls s"
  by (simp_all add: advance_to_def)

lemma frame_child_exits [simp]:
  "trace (child_exits s) = trace s" "process (child_exits s) = process s"
  "ipc_calls (child_exits s) = ipc_calls s"
  by (simp_all add: child_exits_def)

lemma process_wait_cases:
  "\<exists>b s'. process_wait w timeout s = (Returned b, s') \<and> trace s' = trace s @ [ProcWait timeout b]
      \<and> process s' = process s \<and> ipc_calls s' = ipc_calls s"
  by (auto simp: process_wait_def and_then_def env_def emit_def returns_def Let_def)

lemma terminate_events:
  "\<exists>s'. terminate w s = (Returned (), s') \<and> process s' = process s \<and> ipc_calls s' = ipc_calls s \<and>
     (\<exists>evs. trace s' = trace s @ evs \<and>
        (process s = None \<and> s' = s \<and> evs = []
         \<or> process s \<noteq> None \<and> evs = [ProcTerminate, ProcWait 2 True]
         \<or> process s \<noteq> None \<and> evs = [ProcTerminate, ProcWait 2 False, ProcKill]))"
proof (cases "process s")
  case None
  then show ?thesis by (simp add: terminate_def returns_def)
next
  case (Some c)
  obtain b s1 where w: "process_wait w 2 (s\<lparr>trace := trace s @ [ProcTerminate]\<rparr>) = (Returned b, s1)"
    and tr: "trace s1 = (trace s @ [ProcTerminate]) @ [ProcWait 2 b]"
    and pr: "process s1 = process s" "ipc_calls s1 = ipc_calls s"
    using process_wait_cases[of w 2 "s\<lparr>trace := trace s @ [ProcTerminate]\<rparr>"] by auto
  show ?thesis
    using Some w tr pr
    by (cases b) (simp_all add: terminate_def and_then_def emit_def skip_def returns_def env_def)
qed

text \<open>
  Claim C10. On an object that was constructed and never started, or whose \<^verbatim>\<open>start\<close> did
  not return \<^verbatim>\<open>True\<close>, \<^verbatim>\<open>terminate\<close> returns without any effect and \<^verbatim>\<open>is_running\<close> is
  false. In every state \<^verbatim>\<open>terminate\<close> returns normally, and the only events it adds are
  none, or the termination request and a wait of two seconds that succeeded, or the request,
  the two-second wait that expired, and the kill after it.
\<close>

theorem terminate_without_process_is_noop:
  "terminate w (AnimationProcess p s) = (Returned (), AnimationProcess p s)
   \<and> \<not> is_running (AnimationProcess p s)
   \<and> (fst (start w (AnimationProcess p s)) \<noteq> Returned True \<longrightarrow>
        terminate w (snd (start w (AnimationProcess p s))) = (Returned (), snd (start w (AnimationProcess p s)))
        \<and> \<not> is_running (snd (start w (AnimationProcess p s))))
   \<and> (\<exists>s' evs. terminate w s = (Returned (), s') \<and> trace s' = trace s @ evs \<and>
        (process s = None \<and> s' = s \<and> evs = []
         \<or> process s \<noteq> None \<and> evs = [ProcTerminate, ProcWait 2 True]
         \<or> process s \<noteq> None \<and> evs = [ProcTerminate, ProcWait 2 False, ProcKill]))"
proof -
  have a: "process s0 = None \<Longrightarrow> terminate w s0 = (Returned (), s0) \<and> \<not> is_running s0" for s0
    by (simp add: terminate_def returns_def is_running_def)
  have b: "process (AnimationProcess p s) = None"
    by (simp add: AnimationProcess_def)
  have c: "fst (start w s0) \<noteq> Returned True \<Longrightarrow> process (snd (start w s0)) = process s0" for s0
    by (simp add: start_def and_then_def emit_def returns_def raise_def debug_log_def
      print_err_def spawn_animation_def start_reader_thread_def split: option.splits if_splits)
  show ?thesis
    using a[OF b] a[of "snd (start w (AnimationProcess p s))"] c[of "AnimationProcess p s"] b
      terminate_events[of w s]
    by auto
qed

theorem terminate_without_process_is_noop_witness:
  "fst (start silent_world (AnimationProcess None initial)) = Raised TypeError
   \<and> terminate silent_world (snd (start silent_world (AnimationProcess None initial)))
       = (Returned (), snd (start silent_world (AnimationProcess None initial)))
   \<and> \<not> is_running (snd (start silent_world (AnimationProcess None initial)))"
proof -
  have h: "fst (start silent_world (AnimationProcess None initial)) = Raised TypeError"
    by (simp add: start_def AnimationProcess_def raise_def)
  show ?thesis
    using h terminate_without_process_is_noop[of silent_world None initial]
    by simp
qed

section \<open>Properties of the retried request\<close>

lemma effects_append: "effects (xs @ ys) = effects xs @ effects ys"
  by (induction xs rule: effects.induct) simp_all

lemma retry_pattern_Suc:
  "retry_pattern method (Suc k) b = [SendIpc method False, Sleep 1] @ retry_pattern method k b"
  by (simp add: retry_pattern_def)

lemma new_events_append: "trace s' = trace s @ evs \<Longrightarrow> new_events s s' = evs"
  by (simp add: new_events_def)

lemma sleep_error_short [simp]:
  "0 \<le> d \<Longrightarrow> d \<le> 2147483648 \<Longrightarrow> sleep_error w d = None"
  by (simp add: sleep_error_def)


lemma sleep_accepted:
  "sleep_error w d = None \<Longrightarrow>
   sleep w d s = (Returned (), advance_to (clock s + d) (s\<lparr>trace := trace s @ [Sleep d]\<rparr>))"
  by (simp add: sleep_def)

lemma sleep_refused: "sleep_error w d = Some e \<Longrightarrow> sleep w d s = (Raised e, s)"
  by (simp add: sleep_def)

lemma retry_step_success:
  "ipc_ok w (ipc_calls s) method \<Longrightarrow>
   \<exists>s'. retry_loop w method n d (a # rest) s = (Returned True, s') \<and>
        ipc_calls s' = Suc (ipc_calls s) \<and> process s' = process s \<and>
        trace s' = trace s @ [SendIpc method True]"
  by (simp add: and_then_def send_ipc_def returns_def)

lemma retry_step_sleep:
  assumes "\<not> ipc_ok w (ipc_calls s) method" "a < n - 1"
  shows "\<exists>s1 evs. retry_loop w method n 1 (a # rest) s = retry_loop w method n 1 rest s1 \<and>
        ipc_calls s1 = Suc (ipc_calls s) \<and> process s1 = process s \<and>
        trace s1 = trace s @ evs \<and> effects evs = [SendIpc method False, Sleep 1]"
proof -
  define evs where "evs =
    [SendIpc method False,
     DebugLog [S ''WARNING: IPC '', S method, S '' failed: '', X],
     DebugLog [S ''Retrying '', S method, S '' in '', T 1, S ''s (attempt '', I (a + 1),
               S ''/'', I n, S '')''],
     Sleep 1]"
  define s1 where "s1 =
    advance_to (clock s + 1) (s\<lparr>ipc_calls := Suc (ipc_calls s), trace := trace s @ evs\<rparr>)"
  have "retry_loop w method n 1 (a # rest) s = retry_loop w method n 1 rest s1"
    using assms
    by (simp add: and_then_def send_ipc_def returns_def debug_log_def emit_def sleep_accepted
        Let_def s1_def evs_def)
  moreover have "ipc_calls s1 = Suc (ipc_calls s)" "process s1 = process s"
    "trace s1 = trace s @ evs"
    by (simp_all add: s1_def)
  moreover have "effects evs = [SendIpc method False, Sleep 1]"
    by (simp add: evs_def)
  ultimately show ?thesis by blast
qed

lemma retry_step_last:
  "\<not> ipc_ok w (ipc_calls s) method \<Longrightarrow> \<not> a < n - 1 \<Longrightarrow>
   \<exists>s' evs. retry_loop w method n d [a] s = (Returned False, s') \<and>
        ipc_calls s' = Suc (ipc_calls s) \<and> process s' = process s \<and>
        trace s' = trace s @ evs \<and> effects evs = [SendIpc method False]"
  by (simp add: and_then_def send_ipc_def returns_def debug_log_def emit_def Let_def)

declare retry_loop.simps [simp del]

lemma retry_loop_success:
  "k < length atts \<Longrightarrow>
   \<forall>j<k. \<not> ipc_ok w (ipc_calls s + j) method \<and> atts ! j < n - 1 \<Longrightarrow>
   ipc_ok w (ipc_calls s + k) method \<Longrightarrow>
   \<exists>s' evs. retry_loop w method n 1 atts s = (Returned True, s') \<and>
      ipc_calls s' = ipc_calls s + k + 1 \<and> process s' = process s \<and>
      trace s' = trace s @ evs \<and> effects evs = retry_pattern method k True"
proof (induction k arbitrary: atts s)
  case 0
  then obtain a rest where atts: "atts = a # rest" by (cases atts) auto
  from 0 show ?case
    using retry_step_success[of w s "method" "n" 1 a rest]
    by (auto simp: atts retry_pattern_def)
next
  case (Suc k)
  then obtain a rest where atts: "atts = a # rest" by (cases atts) auto
  from Suc.prems have f0: "\<not> ipc_ok w (ipc_calls s) method" "a < n - 1"
    by (auto simp: atts dest: spec[of _ 0])
  obtain s1 evs1 where s1: "retry_loop w method n 1 (a # rest) s = retry_loop w method n 1 rest s1"
    "ipc_calls s1 = Suc (ipc_calls s)" "process s1 = process s"
    "trace s1 = trace s @ evs1" "effects evs1 = [SendIpc method False, Sleep 1]"
    using retry_step_sleep[OF f0, of rest] by blast
  have "k < length rest" using Suc.prems(1) by (simp add: atts)
  moreover have "\<forall>j<k. \<not> ipc_ok w (ipc_calls s1 + j) method \<and> rest ! j < n - 1"
  proof (intro allI impI)
    fix j assume "j < k"
    then have "Suc j < Suc k" by simp
    with Suc.prems(2) have "\<not> ipc_ok w (ipc_calls s + Suc j) method \<and> atts ! Suc j < n - 1"
      by blast
    then show "\<not> ipc_ok w (ipc_calls s1 + j) method \<and> rest ! j < n - 1"
      by (simp add: s1(2) atts)
  qed
  moreover have "ipc_ok w (ipc_calls s1 + k) method"
    using Suc.prems(3) by (simp add: s1(2))
  ultimately obtain s' evs where
    r: "retry_loop w method n 1 rest s1 = (Returned True, s')"
      "ipc_calls s' = ipc_calls s1 + k + 1" "process s' = process s1"
      "trace s' = trace s1 @ evs" "effects evs = retry_pattern method k True"
    using Suc.IH[of rest s1] by blast
  have "trace s' = trace s @ (evs1 @ evs)"
    by (simp add: r(4) s1(4))
  moreover have "effects (evs1 @ evs) = retry_pattern method (Suc k) True"
    by (simp add: effects_append s1(5) r(5) retry_pattern_Suc)
  ultimately show ?case
    using r(1-3) s1(1-3) unfolding atts by (intro exI[of _ s'] exI[of _ "evs1 @ evs"]) simp
qed

lemma retry_loop_failure:
  "atts \<noteq> [] \<Longrightarrow>
   \<forall>j<length atts. \<not> ipc_ok w (ipc_calls s + j) method \<Longrightarrow>
   \<forall>j<length atts - 1. atts ! j < n - 1 \<Longrightarrow>
   \<not> last atts < n - 1 \<Longrightarrow>
   \<exists>s' evs. retry_loop w method n 1 atts s = (Returned False, s') \<and>
      ipc_calls s' = ipc_calls s + length atts \<and> process s' = process s \<and>
      trace s' = trace s @ evs \<and> effects evs = retry_pattern method (length atts - 1) False"
proof (induction atts arbitrary: s)
  case Nil
  then show ?case by simp
next
  case (Cons a rest)
  from Cons.prems(2) have f0: "\<not> ipc_ok w (ipc_calls s) method"
    by (auto dest: spec[of _ 0])
  show ?case
  proof (cases rest)
    case Nil
    with Cons.prems(4) have "\<not> a < n - 1" by simp
    from retry_step_last[OF f0 this, of 1] show ?thesis
      by (auto simp: Nil retry_pattern_def)
  next
    case (Cons b rest')
    then have ne: "rest \<noteq> []" by simp
    from Cons.prems(3) have "a < n - 1"
      using ne by (auto dest: spec[of _ 0])
    from retry_step_sleep[OF f0 this, of rest]
    obtain s1 evs1 where s1: "retry_loop w method n 1 (a # rest) s = retry_loop w method n 1 rest s1"
      "ipc_calls s1 = Suc (ipc_calls s)" "process s1 = process s"
      "trace s1 = trace s @ evs1" "effects evs1 = [SendIpc method False, Sleep 1]"
      by blast
    have p2: "\<forall>j<length rest. \<not> ipc_ok w (ipc_calls s1 + j) method"
    proof (intro allI impI)
      fix j assume "j < length rest"
      then have "Suc j < length (a # rest)" by simp
      with Cons.prems(2) have "\<not> ipc_ok w (ipc_calls s + Suc j) method" by blast
      then show "\<not> ipc_ok w (ipc_calls s1 + j) method" by (simp add: s1(2))
    qed
    have p3: "\<forall>j<length rest - 1. rest ! j < n - 1"
    proof (intro allI impI)
      fix j assume "j < length rest - 1"
      then have "Suc j < length (a # rest) - 1" by simp
      with Cons.prems(3) have "(a # rest) ! Suc j < n - 1" by blast
      then show "rest ! j < n - 1" by simp
    qed
    have p4: "\<not> last rest < n - 1"
      using Cons.prems(4) ne by simp
    from Cons.IH[OF ne p2 p3 p4]
    obtain s' evs where
      r: "retry_loop w method n 1 rest s1 = (Returned False, s')"
        "ipc_calls s' = ipc_calls s1 + length rest" "process s' = process s1"
        "trace s' = trace s1 @ evs" "effects evs = retry_pattern method (length rest - 1) False"
      by blast
    have "trace s' = trace s @ (evs1 @ evs)"
      by (simp add: r(4) s1(4))
    moreover have "effects (evs1 @ evs) = retry_pattern method (length (a # rest) - 1) False"
      using ne retry_pattern_Suc[of "method" "length rest - 1" False]
      by (cases rest) (simp_all add: effects_append s1(5) r(5))
    ultimately show ?thesis
      using r(1-3) s1(1-3) by (intro exI[of _ s'] exI[of _ "evs1 @ evs"]) simp
  qed
qed

lemma range_5: "[0..(5::int) - 1] = [0, 1, 2, 3, 4]"
  by (simp add: upto_rec1)

lemma range_5_sleeps: "j < 4 \<Longrightarrow> [0, 1, 2, 3, 4::int] ! j < 5 - 1"
  by (simp add: nth_Cons')

lemma range_5_length: "length [0, 1, 2, 3, 4::int] = 5" "length [0, 1, 2, 3, 4::int] - 1 = 4"
  by simp_all

lemma five_minus_one: "(5::nat) - 1 = 4"
  by simp

lemma default_retry_success:
  assumes "k < 5" "\<forall>j<k. \<not> ipc_ok w (ipc_calls s + j) method" "ipc_ok w (ipc_calls s + k) method"
  shows "\<exists>s' evs. send_ipc_with_retry w method 5 1 s = (Returned True, s') \<and>
      ipc_calls s' = ipc_calls s + k + 1 \<and> process s' = process s \<and>
      trace s' = trace s @ evs \<and> effects evs = retry_pattern method k True"
proof -
  have a: "k < length [0, 1, 2, 3, 4::int]"
    using assms(1) by simp
  have b: "\<forall>j<k. \<not> ipc_ok w (ipc_calls s + j) method \<and> [0, 1, 2, 3, 4::int] ! j < 5 - 1"
  proof (intro allI impI conjI)
    fix j assume j: "j < k"
    with assms(2) show "\<not> ipc_ok w (ipc_calls s + j) method" by blast
    from j assms(1) have "j < 4" by simp
    then show "[0, 1, 2, 3, 4::int] ! j < 5 - 1" by (rule range_5_sleeps)
  qed
  from retry_loop_success[OF a b assms(3)] show ?thesis
    unfolding send_ipc_with_retry_def range_5 .
qed

lemma default_retry_failure:
  assumes "\<forall>j<5. \<not> ipc_ok w (ipc_calls s + j) method"
  shows "\<exists>s' evs. send_ipc_with_retry w method 5 1 s = (Returned False, s') \<and>
      ipc_calls s' = ipc_calls s + 5 \<and> process s' = process s \<and>
      trace s' = trace s @ evs \<and> effects evs = retry_pattern method 4 False"
proof -
  have a: "[0, 1, 2, 3, 4::int] \<noteq> []" by simp
  have b: "\<forall>j<length [0, 1, 2, 3, 4::int]. \<not> ipc_ok w (ipc_calls s + j) method"
    using assms unfolding range_5_length .
  have c: "\<forall>j<length [0, 1, 2, 3, 4::int] - 1. [0, 1, 2, 3, 4::int] ! j < 5 - 1"
    unfolding range_5_length(2) using range_5_sleeps by blast
  have d: "\<not> last [0, 1, 2, 3, 4::int] < 5 - 1" by simp
  from retry_loop_failure[OF a b c d] show ?thesis
    unfolding send_ipc_with_retry_def range_5 range_5_length(1) five_minus_one .
qed

lemma first_success:
  fixes ok :: "nat \<Rightarrow> bool"
  shows "(\<exists>k<n. ok k \<and> (\<forall>j<k. \<not> ok j)) \<or> (\<forall>j<n. \<not> ok j)"
proof (cases "\<exists>k<n. ok k")
  case True
  then obtain k where k: "k < n" "ok k" by blast
  define m where "m = (LEAST i. ok i)"
  have "ok m" unfolding m_def using k(2) by (rule LeastI)
  moreover have "m \<le> k" unfolding m_def using k(2) by (rule Least_le)
  moreover have "\<forall>j<m. \<not> ok j" unfolding m_def using not_less_Least by blast
  ultimately show ?thesis using k(1) by (intro disjI1 exI[of _ m]) simp
next
  case False
  then show ?thesis by blast
qed

lemma default_retry_shape:
  "\<exists>k b s' evs. send_ipc_with_retry w method 5 1 s = (Returned b, s') \<and>
      k \<le> 4 \<and> (b \<or> k = 4) \<and> process s' = process s \<and>
      trace s' = trace s @ evs \<and> effects evs = retry_pattern method k b"
proof -
  consider k where "k < 5" "ipc_ok w (ipc_calls s + k) method"
      "\<forall>j<k. \<not> ipc_ok w (ipc_calls s + j) method"
    | "\<forall>j<5. \<not> ipc_ok w (ipc_calls s + j) method"
    using first_success[of 5 "\<lambda>i. ipc_ok w (ipc_calls s + i) method"] by blast
  then show ?thesis
  proof cases
    case 1
    from default_retry_success[OF 1(1) 1(3) 1(2)] obtain s' evs where
      "send_ipc_with_retry w method 5 1 s = (Returned True, s')" "process s' = process s"
      "trace s' = trace s @ evs" "effects evs = retry_pattern method k True"
      by blast
    moreover have "k \<le> 4" using 1(1) by simp
    ultimately show ?thesis by blast
  next
    case 2
    from default_retry_failure[OF 2] obtain s' evs where
      "send_ipc_with_retry w method 5 1 s = (Returned False, s')" "process s' = process s"
      "trace s' = trace s @ evs" "effects evs = retry_pattern method 4 False"
      by blast
    then show ?thesis by blast
  qed
qed

text \<open>
  Claim C4. With its default arguments \<^verbatim>\<open>send_ipc_with_retry\<close> makes at most five
  attempts. If the attempt of index \<open>k < 5\<close> is the first to succeed, it returns \<^verbatim>\<open>True\<close>
  after exactly \<open>k + 1\<close> calls of \<^verbatim>\<open>send_ipc\<close>, each failed one followed by a sleep of one
  second, and nothing after the successful one. If all five fail, it returns \<^verbatim>\<open>False\<close>
  after exactly five calls with four sleeps between them and none after the last.
\<close>

theorem send_ipc_with_retry_bounded:
  "(\<forall>k<5. (\<forall>j<k. \<not> ipc_ok w (ipc_calls s + j) method) \<and> ipc_ok w (ipc_calls s + k) method \<longrightarrow>
      (\<exists>s'. send_ipc_with_retry w method 5 1 s = (Returned True, s') \<and>
            ipc_calls s' = ipc_calls s + k + 1 \<and>
            trace s' = trace s @ new_events s s' \<and>
            effects (new_events s s') = retry_pattern method k True))
   \<and> ((\<forall>j<5. \<not> ipc_ok w (ipc_calls s + j) method) \<longrightarrow>
      (\<exists>s'. send_ipc_with_retry w method 5 1 s = (Returned False, s') \<and>
            ipc_calls s' = ipc_calls s + 5 \<and>
            trace s' = trace s @ new_events s s' \<and>
            effects (new_events s s') = retry_pattern method 4 False))"
proof (intro conjI allI impI)
  fix k
  assume "k < 5" and h: "(\<forall>j<k. \<not> ipc_ok w (ipc_calls s + j) method) \<and> ipc_ok w (ipc_calls s + k) method"
  then obtain s' evs where "send_ipc_with_retry w method 5 1 s = (Returned True, s')"
    "ipc_calls s' = ipc_calls s + k + 1" "trace s' = trace s @ evs"
    "effects evs = retry_pattern method k True"
    using default_retry_success[of k w s "method"] by blast
  then show "\<exists>s'. send_ipc_with_retry w method 5 1 s = (Returned True, s') \<and>
            ipc_calls s' = ipc_calls s + k + 1 \<and>
            trace s' = trace s @ new_events s s' \<and>
            effects (new_events s s') = retry_pattern method k True"
    by (auto simp: new_events_def)
next
  assume "\<forall>j<5. \<not> ipc_ok w (ipc_calls s + j) method"
  then obtain s' evs where "send_ipc_with_retry w method 5 1 s = (Returned False, s')"
    "ipc_calls s' = ipc_calls s + 5" "trace s' = trace s @ evs"
    "effects evs = retry_pattern method 4 False"
    using default_retry_failure[of w s "method"] by blast
  then show "\<exists>s'. send_ipc_with_retry w method 5 1 s = (Returned False, s') \<and>
            ipc_calls s' = ipc_calls s + 5 \<and>
            trace s' = trace s @ new_events s s' \<and>
            effects (new_events s s') = retry_pattern method 4 False"
    by (auto simp: new_events_def)
qed

theorem send_ipc_with_retry_bounded_witness:
  "(\<exists>s'. send_ipc_with_retry sample_world ''cursor-control/show'' 5 1 initial = (Returned True, s') \<and>
        ipc_calls s' = 3 \<and>
        effects (new_events initial s') =
          [SendIpc ''cursor-control/show'' False, Sleep 1,
           SendIpc ''cursor-control/show'' False, Sleep 1,
           SendIpc ''cursor-control/show'' True])
   \<and> (\<exists>s'. send_ipc_with_retry silent_world ''cursor-control/show'' 5 1 initial = (Returned False, s') \<and>
        ipc_calls s' = 5 \<and>
        effects (new_events initial s') =
          [SendIpc ''cursor-control/show'' False, Sleep 1,
           SendIpc ''cursor-control/show'' False, Sleep 1,
           SendIpc ''cursor-control/show'' False, Sleep 1,
           SendIpc ''cursor-control/show'' False, Sleep 1,
           SendIpc ''cursor-control/show'' False])"
proof -
  have i0: "ipc_calls initial = 0"
    by (simp add: initial_def)
  have a: "(\<forall>j<2. \<not> ipc_ok sample_world (ipc_calls initial + j) ''cursor-control/show'')
      \<and> ipc_ok sample_world (ipc_calls initial + 2) ''cursor-control/show''"
    by (simp add: sample_world_def i0)
  have b: "\<forall>j<5. \<not> ipc_ok silent_world (ipc_calls initial + j) ''cursor-control/show''"
    by (simp add: silent_world_def sample_world_def)
  have c: "retry_pattern m 2 True = [SendIpc m False, Sleep 1, SendIpc m False, Sleep 1, SendIpc m True]"
    "retry_pattern m 4 False = [SendIpc m False, Sleep 1, SendIpc m False, Sleep 1,
        SendIpc m False, Sleep 1, SendIpc m False, Sleep 1, SendIpc m False]" for m
    by (simp_all add: retry_pattern_def eval_nat_numeral)
  have two: "(2::nat) < 5" by simp
  note th1 = send_ipc_with_retry_bounded[of sample_world initial "''cursor-control/show''",
      THEN conjunct1, rule_format, OF two a]
  note th2 = send_ipc_with_retry_bounded[of silent_world initial "''cursor-control/show''",
      THEN conjunct2, rule_format, OF b[rule_format]]
  from th1 obtain s1 where s1:
    "send_ipc_with_retry sample_world ''cursor-control/show'' 5 1 initial = (Returned True, s1)"
    "ipc_calls s1 = ipc_calls initial + 2 + 1"
    "effects (new_events initial s1) = retry_pattern ''cursor-control/show'' 2 True"
    by blast
  from th2 obtain s2 where s2:
    "send_ipc_with_retry silent_world ''cursor-control/show'' 5 1 initial = (Returned False, s2)"
    "ipc_calls s2 = ipc_calls initial + 5"
    "effects (new_events initial s2) = retry_pattern ''cursor-control/show'' 4 False"
    by blast
  have "ipc_calls s1 = 3" "ipc_calls s2 = 5"
    using s1(2) s2(2) by (simp_all add: i0)
  with s1 s2 show ?thesis
    unfolding c by blast
qed

section \<open>Properties of the power action\<close>

lemma sleep_post: "sleep_error w d = None \<Longrightarrow> sleep w d s = (Returned (), post (sleep w d) s)"
  by (simp add: post_def sleep_def)

lemma sleep_post_frame:
  "sleep_error w d = None \<Longrightarrow> trace (post (sleep w d) s) = trace s @ [Sleep d]"
  "process (post (sleep w d) s) = process s"
  "ipc_calls (post (sleep w d) s) = ipc_calls s"
  by (simp_all add: post_def sleep_def split: option.splits)

lemma terminate_post: "terminate w s = (Returned (), post (terminate w) s)"
  using terminate_events[of w s] by (auto simp: post_def)

lemma terminate_post_frame:
  "process (post (terminate w) s) = process s"
  "ipc_calls (post (terminate w) s) = ipc_calls s"
  using terminate_events[of w s] by (auto simp: post_def)

lemma terminate_post_trace:
  "process s \<noteq> None \<Longrightarrow>
   \<exists>killed. trace (post (terminate w) s) =
      trace s @ [ProcTerminate, ProcWait 2 (\<not> killed)] @ (if killed then [ProcKill] else [])"
proof -
  assume p: "process s \<noteq> None"
  from terminate_events[of w s] p
  consider "trace (post (terminate w) s) = trace s @ [ProcTerminate, ProcWait 2 True]"
    | "trace (post (terminate w) s) = trace s @ [ProcTerminate, ProcWait 2 False, ProcKill]"
    by (auto simp: post_def)
  then show ?thesis
  proof cases
    case 1
    then show ?thesis by (intro exI[of _ False]) simp
  next
    case 2
    then show ?thesis by (intro exI[of _ True]) simp
  qed
qed

lemma unfreeze_retry_post:
  "unfreeze_compositor w True s = (Returned (), post (unfreeze_compositor w True) s)"
  "process (post (unfreeze_compositor w True) s) = process s"
  "\<exists>k b evs. trace (post (unfreeze_compositor w True) s) = trace s @ evs \<and>
      effects evs = retry_pattern ''screen-freeze/unfreeze'' k b \<and> k \<le> 4 \<and> (b \<or> k = 4)"
proof -
  obtain k b s' evs where r:
    "send_ipc_with_retry w ''screen-freeze/unfreeze'' 5 1 s = (Returned b, s')"
    "k \<le> 4" "b \<or> k = 4" "process s' = process s"
    "trace s' = trace s @ evs" "effects evs = retry_pattern ''screen-freeze/unfreeze'' k b"
    using default_retry_shape[of w "''screen-freeze/unfreeze''" s] by blast
  have u: "unfreeze_compositor w True s =
      (Returned (), if b then s'\<lparr>trace := trace s' @ [DebugLog [S ''Compositor unfrozen'']]\<rparr> else s')"
    by (simp add: unfreeze_compositor_def and_then_def r(1) debug_log_def emit_def skip_def returns_def)
  show "unfreeze_compositor w True s = (Returned (), post (unfreeze_compositor w True) s)"
    by (simp add: post_def u)
  show "process (post (unfreeze_compositor w True) s) = process s"
    by (simp add: post_def u r(4))
  have "trace (post (unfreeze_compositor w True) s) =
      trace s @ (evs @ (if b then [DebugLog [S ''Compositor unfrozen'']] else []))"
    by (simp add: post_def u r(5))
  moreover have "effects (evs @ (if b then [DebugLog [S ''Compositor unfrozen'']] else [])) =
      retry_pattern ''screen-freeze/unfreeze'' k b"
    by (simp add: effects_append r(6))
  ultimately show "\<exists>k b evs. trace (post (unfreeze_compositor w True) s) = trace s @ evs \<and>
      effects evs = retry_pattern ''screen-freeze/unfreeze'' k b \<and> k \<le> 4 \<and> (b \<or> k = 4)"
    using r(2,3) by blast
qed

lemma show_cursor_retry_post:
  "show_cursor w True s = (Returned (), post (show_cursor w True) s)"
  "process (post (show_cursor w True) s) = process s"
  "\<exists>k b evs. trace (post (show_cursor w True) s) = trace s @ evs \<and>
      effects evs = retry_pattern ''cursor-control/show'' k b \<and> k \<le> 4 \<and> (b \<or> k = 4)"
proof -
  obtain k b s' evs where r:
    "send_ipc_with_retry w ''cursor-control/show'' 5 1 s = (Returned b, s')"
    "k \<le> 4" "b \<or> k = 4" "process s' = process s"
    "trace s' = trace s @ evs" "effects evs = retry_pattern ''cursor-control/show'' k b"
    using default_retry_shape[of w "''cursor-control/show''" s] by blast
  have u: "show_cursor w True s =
      (Returned (), if b then s'\<lparr>trace := trace s' @ [DebugLog [S ''Cursor restored'']]\<rparr> else s')"
    by (simp add: show_cursor_def and_then_def r(1) debug_log_def emit_def skip_def returns_def)
  show "show_cursor w True s = (Returned (), post (show_cursor w True) s)"
    by (simp add: post_def u)
  show "process (post (show_cursor w True) s) = process s"
    by (simp add: post_def u r(4))
  have "trace (post (show_cursor w True) s) =
      trace s @ (evs @ (if b then [DebugLog [S ''Cursor restored'']] else []))"
    by (simp add: post_def u r(5))
  moreover have "effects (evs @ (if b then [DebugLog [S ''Cursor restored'']] else [])) =
      retry_pattern ''cursor-control/show'' k b"
    by (simp add: effects_append r(6))
  ultimately show "\<exists>k b evs. trace (post (show_cursor w True) s) = trace s @ evs \<and>
      effects evs = retry_pattern ''cursor-control/show'' k b \<and> k \<le> 4 \<and> (b \<or> k = 4)"
    using r(2,3) by blast
qed

lemma get_command_simps:
  "get_command ''shutdown'' = Some [''sudo'', ''-A'', ''shutdown'', ''-h'', ''now'']"
  "get_command ''reboot'' = Some [''sudo'', ''-A'', ''reboot'']"
  "get_command ''logout'' = Some [''loginctl'', ''terminate-session'', '''']"
  "get_command ''suspend'' = Some [''systemctl'', ''suspend'']"
  "get_command ''hibernate'' = Some [''systemctl'', ''hibernate'']"
  "get_command ''windows'' = Some [''sudo'', ''-A'', ''reboot'']"
  "get_command ''test'' = None"
  by (simp_all add: get_command_def POWER_COMMANDS_def)

lemma suspend_path:
  assumes "action = ''suspend'' \<or> action = ''hibernate''"
    and "launch_error w [''systemctl'', action] = None"
  shows "execute_power_action w fuel action True hold_time s =
    (Returned (),
     (post (show_cursor w True) (post (unfreeze_compositor w True) (post (terminate w) (post (sleep w 3)
        (s\<lparr>trace := trace s @
           [DebugLog [S ''Executing power action: '', S (''systemctl '' @ action)],
            PrintOut [S ''Executing: '', S (''systemctl '' @ action)],
            Popen [''systemctl'', action],
            DebugLog [S ''Waiting for resume from suspend/hibernate...'']]\<rparr>)))))
     \<lparr>trace := trace (post (show_cursor w True) (post (unfreeze_compositor w True) (post (terminate w) (post (sleep w 3)
        (s\<lparr>trace := trace s @
           [DebugLog [S ''Executing power action: '', S (''systemctl '' @ action)],
            PrintOut [S ''Executing: '', S (''systemctl '' @ action)],
            Popen [''systemctl'', action],
            DebugLog [S ''Waiting for resume from suspend/hibernate...'']]\<rparr>))))) @
        [DebugLog [S ''Resumed from suspend/hibernate, compositor unfrozen'']]\<rparr>)"
  using assms
  by (auto simp: execute_power_action_def get_command_simps launch_and_hold_def and_then_def
      skip_def returns_def debug_log_def print_def emit_def popen_def sleep_post terminate_post
      unfreeze_retry_post(1) show_cursor_retry_post(1))

text \<open>
  Claim C5. For suspend and hibernate, called with a started animation, when the command
  \<^verbatim>\<open>systemctl suspend\<close> (or \<^verbatim>\<open>hibernate\<close>) can be launched, \<^verbatim>\<open>execute_power_action\<close> returns
  normally whatever the fuel (so it does not enter the hold loop), and its effects, log
  lines and prints apart, are in this order: the command launched with \<^verbatim>\<open>Popen\<close>, a sleep
  of three seconds, the termination of the animation (request, wait of two seconds, kill if
  the wait expired), the retried unfreeze request and the retried show-cursor request.
\<close>

theorem suspend_returns_after_cleanup:
  assumes "action = ''suspend'' \<or> action = ''hibernate''" and "process s \<noteq> None"
    and "launch_error w [''systemctl'', action] = None"
  shows "\<exists>s' killed k1 b1 k2 b2.
     execute_power_action w fuel action True hold_time s = (Returned (), s') \<and>
     trace s' = trace s @ new_events s s' \<and>
     effects (new_events s s') =
       [Popen [''systemctl'', action], Sleep 3, ProcTerminate, ProcWait 2 (\<not> killed)]
       @ (if killed then [ProcKill] else [])
       @ retry_pattern ''screen-freeze/unfreeze'' k1 b1
       @ retry_pattern ''cursor-control/show'' k2 b2 \<and>
     k1 \<le> 4 \<and> (b1 \<or> k1 = 4) \<and> k2 \<le> 4 \<and> (b2 \<or> k2 = 4)"
proof -
  define pre where "pre =
    [DebugLog [S ''Executing power action: '', S (''systemctl '' @ action)],
     PrintOut [S ''Executing: '', S (''systemctl '' @ action)],
     Popen [''systemctl'', action],
     DebugLog [S ''Waiting for resume from suspend/hibernate...'']]"
  define s1 where "s1 = s\<lparr>trace := trace s @ pre\<rparr>"
  define s2 where "s2 = post (sleep w 3) s1"
  define s3 where "s3 = post (terminate w) s2"
  define s4 where "s4 = post (unfreeze_compositor w True) s3"
  define s5 where "s5 = post (show_cursor w True) s4"
  define fin where "fin = [DebugLog [S ''Resumed from suspend/hibernate, compositor unfrozen'']]"
  define s' where "s' = s5\<lparr>trace := trace s5 @ fin\<rparr>"
  have run: "execute_power_action w fuel action True hold_time s = (Returned (), s')"
    unfolding s'_def s5_def s4_def s3_def s2_def s1_def pre_def fin_def
    by (rule suspend_path[OF assms(1) assms(3)])
  have t2: "trace s2 = trace s1 @ [Sleep 3]" and p2: "process s2 \<noteq> None"
    using assms(2) by (simp_all add: s2_def sleep_post_frame s1_def)
  obtain killed where t3: "trace s3 =
      trace s2 @ [ProcTerminate, ProcWait 2 (\<not> killed)] @ (if killed then [ProcKill] else [])"
    unfolding s3_def using terminate_post_trace[OF p2, of w] by blast
  obtain k1 b1 e1 where t4: "trace s4 = trace s3 @ e1"
    "effects e1 = retry_pattern ''screen-freeze/unfreeze'' k1 b1" "k1 \<le> 4" "b1 \<or> k1 = 4"
    unfolding s4_def using unfreeze_retry_post(3)[of w s3] by blast
  obtain k2 b2 e2 where t5: "trace s5 = trace s4 @ e2"
    "effects e2 = retry_pattern ''cursor-control/show'' k2 b2" "k2 \<le> 4" "b2 \<or> k2 = 4"
    unfolding s5_def using show_cursor_retry_post(3)[of w s4] by blast
  define evs where "evs =
    pre @ [Sleep 3] @ ([ProcTerminate, ProcWait 2 (\<not> killed)] @ (if killed then [ProcKill] else []))
      @ e1 @ e2 @ fin"
  have tr: "trace s' = trace s @ evs"
    by (simp add: s'_def t5(1) t4(1) t3 t2 s1_def evs_def)
  then have ne: "new_events s s' = evs"
    by (rule new_events_append)
  have "effects evs =
       [Popen [''systemctl'', action], Sleep 3, ProcTerminate, ProcWait 2 (\<not> killed)]
       @ (if killed then [ProcKill] else [])
       @ retry_pattern ''screen-freeze/unfreeze'' k1 b1
       @ retry_pattern ''cursor-control/show'' k2 b2"
    by (simp add: evs_def effects_append t4(2) t5(2) pre_def fin_def)
  with run tr ne t4(3,4) t5(3,4) show ?thesis
    by (intro exI[of _ s'] exI[of _ killed] exI[of _ k1] exI[of _ b1] exI[of _ k2] exI[of _ b2])
      simp
qed

theorem suspend_returns_after_cleanup_witness:
  "\<exists>s' killed k1 b1 k2 b2.
     execute_power_action sample_world 0 ''suspend'' True 3
       (initial\<lparr>process := Some [''python3'', ''/anim/fire/animate.py'']\<rparr>) = (Returned (), s') \<and>
     trace s' = trace (initial\<lparr>process := Some [''python3'', ''/anim/fire/animate.py'']\<rparr>)
       @ new_events (initial\<lparr>process := Some [''python3'', ''/anim/fire/animate.py'']\<rparr>) s' \<and>
     effects (new_events (initial\<lparr>process := Some [''python3'', ''/anim/fire/animate.py'']\<rparr>) s') =
       [Popen [''systemctl'', ''suspend''], Sleep 3, ProcTerminate, ProcWait 2 (\<not> killed)]
       @ (if killed then [ProcKill] else [])
       @ retry_pattern ''screen-freeze/unfreeze'' k1 b1
       @ retry_pattern ''cursor-control/show'' k2 b2 \<and>
     k1 \<le> 4 \<and> (b1 \<or> k1 = 4) \<and> k2 \<le> 4 \<and> (b2 \<or> k2 = 4)"
  by (rule suspend_returns_after_cleanup) (simp_all add: sample_world_def)

text \<open>When the command cannot be launched, \<^verbatim>\<open>Popen\<close> raises and \<^verbatim>\<open>execute_power_action\<close>
  ends with that exception after its two announcements: nothing is launched, and the
  animation is not terminated nor the compositor unfrozen.\<close>

lemma suspend_launch_failure:
  assumes "action = ''suspend'' \<or> action = ''hibernate''"
    and "launch_error w [''systemctl'', action] = Some e"
  shows "execute_power_action w fuel action animation hold_time s =
    (Raised e,
     s\<lparr>trace := trace s @
        [DebugLog [S ''Executing power action: '', S (''systemctl '' @ action)],
         PrintOut [S ''Executing: '', S (''systemctl '' @ action)]]\<rparr>)"
  using assms
  by (auto simp: execute_power_action_def get_command_simps launch_and_hold_def and_then_def
      skip_def returns_def debug_log_def print_def emit_def popen_def)

lemma get_session_id_eq:
  "get_session_id w s =
     (Returned (session_id_found w),
      s\<lparr>trace := trace s @ [Run [''loginctl'', ''list-sessions'', ''--no-legend'']]\<rparr>)"
  by (simp add: get_session_id_def and_then_def emit_def returns_def)

lemma commands_append: "commands (xs @ ys) = commands xs @ commands ys"
  by (induction xs rule: commands.induct) simp_all

text \<open>
  Claim C6. When the session lookup of a logout yields the empty string, both paths print
  the error and return, and the only subprocess they ran is the session query: no
  \<^verbatim>\<open>loginctl terminate-session\<close> is issued. \<^verbatim>\<open>run_without_animation\<close> adds exactly its two
  announcements, the query and the error. \<^verbatim>\<open>execute_power_action\<close> adds the query, the
  logged and the printed error and, when an animation was passed and has a subprocess, the
  termination of that subprocess after them; it returns for every fuel.
\<close>

theorem logout_without_session_aborts:
  assumes "session_id_found w = ''''"
  shows "run_without_animation w ''logout'' hold_time s =
      (Returned (),
       s\<lparr>trace := trace s @
          [DebugLog [S ''Running without animation: '', S ''logout''],
           PrintOut [S ''Executing '', S ''logout'', S '' (no animation)...''],
           Run [''loginctl'', ''list-sessions'', ''--no-legend''],
           PrintErr [S ''ERROR: Could not determine session ID for logout'']]\<rparr>)
    \<and> execute_power_action w fuel ''logout'' False hold_time s =
      (Returned (),
       s\<lparr>trace := trace s @
          [Run [''loginctl'', ''list-sessions'', ''--no-legend''],
           DebugLog [S ''ERROR: Could not determine session ID for logout''],
           PrintErr [S ''ERROR: Could not determine session ID for logout'']]\<rparr>)
    \<and> (\<exists>s' tevs.
          execute_power_action w fuel ''logout'' True hold_time s = (Returned (), s') \<and>
          trace s' = trace s @
            [Run [''loginctl'', ''list-sessions'', ''--no-legend''],
             DebugLog [S ''ERROR: Could not determine session ID for logout''],
             PrintErr [S ''ERROR: Could not determine session ID for logout'']] @ tevs \<and>
          commands (new_events s s') = [[''loginctl'', ''list-sessions'', ''--no-legend'']] \<and>
          (process s = None \<and> tevs = []
           \<or> process s \<noteq> None \<and> tevs = [ProcTerminate, ProcWait 2 True]
           \<or> process s \<noteq> None \<and> tevs = [ProcTerminate, ProcWait 2 False, ProcKill]))"
proof (intro conjI)
  show "run_without_animation w ''logout'' hold_time s =
      (Returned (),
       s\<lparr>trace := trace s @
          [DebugLog [S ''Running without animation: '', S ''logout''],
           PrintOut [S ''Executing '', S ''logout'', S '' (no animation)...''],
           Run [''loginctl'', ''list-sessions'', ''--no-legend''],
           PrintErr [S ''ERROR: Could not determine session ID for logout'']]\<rparr>)"
    by (simp add: run_without_animation_def get_command_simps and_then_def get_session_id_eq
        assms debug_log_def print_def print_err_def emit_def)
  show "execute_power_action w fuel ''logout'' False hold_time s =
      (Returned (),
       s\<lparr>trace := trace s @
          [Run [''loginctl'', ''list-sessions'', ''--no-legend''],
           DebugLog [S ''ERROR: Could not determine session ID for logout''],
           PrintErr [S ''ERROR: Could not determine session ID for logout'']]\<rparr>)"
    by (simp add: execute_power_action_def get_command_simps and_then_def get_session_id_eq
        assms debug_log_def print_err_def emit_def skip_def returns_def)
  define err where "err =
    [Run [''loginctl'', ''list-sessions'', ''--no-legend''],
     DebugLog [S ''ERROR: Could not determine session ID for logout''],
     PrintErr [S ''ERROR: Could not determine session ID for logout'']]"
  define s1 where "s1 = s\<lparr>trace := trace s @ err\<rparr>"
  have run: "execute_power_action w fuel ''logout'' True hold_time s = terminate w s1"
    by (simp add: execute_power_action_def get_command_simps and_then_def get_session_id_eq
        assms debug_log_def print_err_def emit_def terminate_post s1_def err_def)
  obtain s' tevs where t: "terminate w s1 = (Returned (), s')" "trace s' = trace s1 @ tevs"
    "process s1 = None \<and> s' = s1 \<and> tevs = []
     \<or> process s1 \<noteq> None \<and> tevs = [ProcTerminate, ProcWait 2 True]
     \<or> process s1 \<noteq> None \<and> tevs = [ProcTerminate, ProcWait 2 False, ProcKill]"
    using terminate_events[of w s1] by blast
  have tr: "trace s' = trace s @ (err @ tevs)"
    by (simp add: t(2) s1_def)
  have "commands (new_events s s') = [[''loginctl'', ''list-sessions'', ''--no-legend'']]"
    using t(3) by (auto simp: new_events_append[OF tr] commands_append err_def)
  moreover have "process s1 = process s"
    by (simp add: s1_def)
  ultimately show "\<exists>s' tevs.
          execute_power_action w fuel ''logout'' True hold_time s = (Returned (), s') \<and>
          trace s' = trace s @
            [Run [''loginctl'', ''list-sessions'', ''--no-legend''],
             DebugLog [S ''ERROR: Could not determine session ID for logout''],
             PrintErr [S ''ERROR: Could not determine session ID for logout'']] @ tevs \<and>
          commands (new_events s s') = [[''loginctl'', ''list-sessions'', ''--no-legend'']] \<and>
          (process s = None \<and> tevs = []
           \<or> process s \<noteq> None \<and> tevs = [ProcTerminate, ProcWait 2 True]
           \<or> process s \<noteq> None \<and> tevs = [ProcTerminate, ProcWait 2 False, ProcKill])"
    using run t(1,3) tr unfolding err_def
    by (intro exI[of _ s'] exI[of _ tevs]) auto
qed

theorem logout_without_session_aborts_witness:
  "session_id_found silent_world = ''''
   \<and> run_without_animation silent_world ''logout'' 3 initial =
      (Returned (),
       initial\<lparr>trace := trace initial @
          [DebugLog [S ''Running without animation: '', S ''logout''],
           PrintOut [S ''Executing '', S ''logout'', S '' (no animation)...''],
           Run [''loginctl'', ''list-sessions'', ''--no-legend''],
           PrintErr [S ''ERROR: Could not determine session ID for logout'']]\<rparr>)
   \<and> execute_power_action silent_world 0 ''logout'' False 3 initial =
      (Returned (),
       initial\<lparr>trace := trace initial @
          [Run [''loginctl'', ''list-sessions'', ''--no-legend''],
           DebugLog [S ''ERROR: Could not determine session ID for logout''],
           PrintErr [S ''ERROR: Could not determine session ID for logout'']]\<rparr>)"
proof -
  have h: "session_id_found silent_world = ''''"
    by (simp add: session_id_found_def silent_world_def sample_world_def)
  show ?thesis
    using h logout_without_session_aborts[OF h, of 3 initial 0] by blast
qed

text \<open>
  Claim C7, where the code departs from it. For the windows action
  \<^verbatim>\<open>run_without_animation\<close> runs the boot-entry helper and discards its result: whatever
  the helper's exit status, the call adds the same five events, none of which is a warning,
  and the reboot command is run.
\<close>

theorem windows_without_animation_never_warns:
  "run_without_animation w ''windows'' hold_time s =
     (Returned (),
      s\<lparr>trace := trace s @
         [DebugLog [S ''Running without animation: '', S ''windows''],
          PrintOut [S ''Executing '', S ''windows'', S '' (no animation)...''],
          Run [''sudo'', ''-A'', ''efibootmgr'', ''--bootnext'', ''0003''],
          DebugLog [S ''Executing: '', S ''sudo -A reboot''],
          Run [''sudo'', ''-A'', ''reboot'']]\<rparr>)"
  by (simp add: run_without_animation_def get_command_simps run_command_def and_then_def
      debug_log_def print_def emit_def)

section \<open>Properties of the driver\<close>

lemma adds_same: "closed P \<Longrightarrow> trace s' = trace s \<Longrightarrow> adds P s s'"
  by (simp add: adds_def closed_def)

lemma adds_events: "P evs \<Longrightarrow> trace s' = trace s @ evs \<Longrightarrow> adds P s s'"
  by (auto simp: adds_def)

lemma adds_trans: "closed P \<Longrightarrow> adds P s s1 \<Longrightarrow> adds P s1 s2 \<Longrightarrow> adds P s s2"
  by (auto simp: adds_def closed_def)

lemma adds_new_events: "adds P s s' \<Longrightarrow> trace s' = trace s @ new_events s s' \<and> P (new_events s s')"
  by (auto simp: adds_def new_events_def)

lemma adds_and_then:
  assumes "closed P" "adds P s (snd (f s))" "\<And>x. adds P (snd (f s)) (snd (g x (snd (f s))))"
  shows "adds P s (snd (and_then f g s))"
proof (cases "f s")
  case (Pair r s1)
  show ?thesis
  proof (cases r)
    case (Returned x)
    then show ?thesis
      using assms(2) assms(3)[of x] Pair adds_trans[OF assms(1)]
      by (auto simp: and_then_def)
  next
    case (Raised e)
    then show ?thesis using assms(2) Pair by (simp add: and_then_def)
  next
    case Holding
    then show ?thesis using assms(2) Pair by (simp add: and_then_def)
  qed
qed

lemma adds_block:
  assumes "closed P" "\<And>f s. f \<in> set fs \<Longrightarrow> adds P s (snd (f s))"
  shows "adds P s (snd (block fs s))"
  using assms(2)
proof (induction fs arbitrary: s)
  case Nil
  then show ?case using assms(1) by (simp add: adds_same)
next
  case (Cons f fs)
  show ?case
    unfolding block.simps
    by (rule adds_and_then[OF assms(1)]) (simp_all add: Cons)
qed

lemma adds_emit: "P [e] \<Longrightarrow> adds P s (snd (emit e s))"
  by (rule adds_events[of P "[e]"]) (simp_all add: emit_def)

lemma adds_skip: "closed P \<Longrightarrow> adds P s (snd (skip s))"
  by (simp add: skip_def returns_def adds_same)

lemma adds_returns: "closed P \<Longrightarrow> adds P s (snd (returns x s))"
  by (simp add: returns_def adds_same)

lemma adds_sleep: "closed P \<Longrightarrow> P [Sleep d] \<Longrightarrow> adds P s (snd (sleep w d s))"
  by (cases "sleep_error w d") (auto simp: sleep_def adds_same intro: adds_events[of P "[Sleep d]"])

lemma adds_terminate:
  "closed P \<Longrightarrow> P [ProcTerminate, ProcWait 2 True] \<Longrightarrow> P [ProcTerminate, ProcWait 2 False, ProcKill] \<Longrightarrow>
   adds P s (snd (terminate w s))"
  using terminate_events[of w s] by (auto simp: adds_def closed_def)

lemma adds_send_ipc:
  assumes "closed P" "\<And>b. P [SendIpc method b]" "\<And>m. P [DebugLog m]"
  shows "adds P s (snd (send_ipc w method s))"
proof (cases "ipc_ok w (ipc_calls s) method")
  case True
  then show ?thesis
    by (auto simp: send_ipc_def intro!: adds_events[of P "[SendIpc method True]"] assms)
next
  case False
  have "P ([SendIpc method False] @ [DebugLog [S ''WARNING: IPC '', S method, S '' failed: '', X]])"
    using assms unfolding closed_def by blast
  with False show ?thesis
    by (auto simp: send_ipc_def and_then_def debug_log_def emit_def returns_def
        intro!: adds_events[of P "[SendIpc method False, DebugLog [S ''WARNING: IPC '', S method, S '' failed: '', X]]"])
qed

lemma adds_retry_loop:
  assumes "closed P" "\<And>b. P [SendIpc method b]" "\<And>m. P [DebugLog m]" "P [Sleep d]"
  shows "adds P s (snd (retry_loop w method n d atts s))"
proof (induction atts arbitrary: s)
  case Nil
  show ?case
    unfolding retry_loop.simps
    by (intro adds_and_then assms(1) adds_returns) (simp add: debug_log_def adds_emit assms)
next
  case (Cons a atts)
  show ?case
    unfolding retry_loop.simps
  proof (rule adds_and_then[OF assms(1)])
    show "adds P s (snd (send_ipc w method s))"
      by (rule adds_send_ipc) (rule assms)+
    fix ok
    show "adds P (snd (send_ipc w method s))
        (snd ((if ok then returns True
               else if a < n - 1
                    then and_then
                          (block
                            [debug_log
                              [S ''Retrying '', S method, S '' in '', T d, S ''s (attempt '',
                               I (a + 1), S ''/'', I n, S '')''],
                             sleep w d])
                          (\<lambda>_. retry_loop w method n d atts)
                    else retry_loop w method n d atts)
               (snd (send_ipc w method s))))"
      by (auto intro!: adds_returns adds_and_then adds_block assms(1) Cons
          simp: debug_log_def adds_emit assms adds_sleep)
  qed
qed


lemma tolerant_closed: "tolerant P \<Longrightarrow> closed P"
  by (simp add: tolerant_def)

lemma tolerant_event: "tolerant P \<Longrightarrow> commands [e] = [] \<Longrightarrow> P [e]"
  by (simp add: tolerant_def)

lemma tolerant_all: "tolerant (\<lambda>_. True)"
  by (simp add: tolerant_def closed_def)


lemma tolerant_pair: "tolerant P \<Longrightarrow> commands [a] = [] \<Longrightarrow> commands [b] = [] \<Longrightarrow> P [a, b]"
  using tolerant_event[of P a] tolerant_event[of P b] tolerant_closed[of P]
  unfolding closed_def by (metis append_Cons append_Nil)

lemma tolerant_triple:
  "tolerant P \<Longrightarrow> commands [a] = [] \<Longrightarrow> commands [b] = [] \<Longrightarrow> commands [c] = [] \<Longrightarrow> P [a, b, c]"
  using tolerant_pair[of P b c] tolerant_event[of P a] tolerant_closed[of P]
  unfolding closed_def by (metis append_Cons append_Nil)

lemma quiet_log:
  "tolerant P \<Longrightarrow> adds P s (snd (debug_log m s))"
  "tolerant P \<Longrightarrow> adds P s (snd (print m s))"
  "tolerant P \<Longrightarrow> adds P s (snd (print_err m s))"
  by (simp_all add: debug_log_def print_def print_err_def adds_emit tolerant_event)

lemma quiet_sleep: "tolerant P \<Longrightarrow> adds P s (snd (sleep w d s))"
  by (simp add: adds_sleep tolerant_closed tolerant_event)

lemma quiet_terminate: "tolerant P \<Longrightarrow> adds P s (snd (terminate w s))"
  by (simp add: adds_terminate tolerant_closed tolerant_pair tolerant_triple)

lemma quiet_send_ipc: "tolerant P \<Longrightarrow> adds P s (snd (send_ipc w method s))"
  by (simp add: adds_send_ipc tolerant_closed tolerant_event)

lemma quiet_retry: "tolerant P \<Longrightarrow> adds P s (snd (send_ipc_with_retry w method n d s))"
  unfolding send_ipc_with_retry_def
  by (simp add: adds_retry_loop tolerant_closed tolerant_event)

lemma quiet_unfreeze: "tolerant P \<Longrightarrow> adds P s (snd (unfreeze_compositor w retry s))"
  unfolding unfreeze_compositor_def
  by (auto intro!: adds_and_then adds_skip simp: tolerant_closed quiet_retry quiet_send_ipc quiet_log)

lemma quiet_show_cursor: "tolerant P \<Longrightarrow> adds P s (snd (show_cursor w retry s))"
  unfolding show_cursor_def
  by (auto intro!: adds_and_then adds_skip simp: tolerant_closed quiet_retry quiet_send_ipc quiet_log)

lemma quiet_hold: "tolerant P \<Longrightarrow> adds P s (snd (hold_until_killed w fuel s))"
proof (induction fuel arbitrary: s)
  case 0
  then show ?case by (simp add: adds_same tolerant_closed)
next
  case (Suc fuel)
  then show ?case
    by (auto intro!: adds_and_then simp: tolerant_closed quiet_sleep)
qed

lemma quiet_test_mode:
  assumes "tolerant P" "get_command action = None"
  shows "adds P s (snd (execute_power_action w fuel action animation hold_time s))"
  unfolding execute_power_action_def assms(2) option.case
  by (rule adds_block)
    (auto simp: tolerant_closed[OF assms(1)] quiet_log[OF assms(1)] quiet_sleep[OF assms(1)]
      quiet_terminate[OF assms(1)] quiet_unfreeze[OF assms(1)] quiet_show_cursor[OF assms(1)]
      adds_skip simp del: block.simps)

lemma grows_emit: "adds (\<lambda>_. True) s (snd (emit e s))"
  by (simp add: adds_emit)

lemma grows_get_session_id: "adds (\<lambda>_. True) s (snd (get_session_id w s))"
  by (simp add: get_session_id_eq adds_def)

lemma grows_popen: "adds (\<lambda>_. True) s (snd (popen w cmd s))"
  by (cases "launch_error w cmd") (simp_all add: popen_def adds_def emit_def)

lemma grows_launch_and_hold: "adds (\<lambda>_. True) s (snd (launch_and_hold w fuel action animation cmd s))"
  unfolding launch_and_hold_def
  by (intro adds_block tolerant_closed[OF tolerant_all])
    (auto intro!: adds_block adds_skip grows_emit grows_popen
      simp: tolerant_closed[OF tolerant_all] quiet_log[OF tolerant_all]
        quiet_sleep[OF tolerant_all] quiet_terminate[OF tolerant_all] quiet_unfreeze[OF tolerant_all]
        quiet_show_cursor[OF tolerant_all] quiet_hold[OF tolerant_all]
      simp del: block.simps)

lemma grows_execute_power_action:
  "adds (\<lambda>_. True) s (snd (execute_power_action w fuel action animation hold_time s))"
proof (cases "get_command action")
  case None
  then show ?thesis by (rule quiet_test_mode[OF tolerant_all])
next
  case (Some cmd)
  show ?thesis
    unfolding execute_power_action_def Some option.case
    by (auto intro!: adds_and_then adds_block grows_launch_and_hold grows_get_session_id adds_skip
        simp: tolerant_closed[OF tolerant_all] quiet_log[OF tolerant_all]
          quiet_terminate[OF tolerant_all]
        simp del: block.simps)
qed

lemma frame_await [simp]:
  "trace (snd (await l d items s)) = trace s"
  "process (snd (await l d items s)) = process s"
  "ipc_calls (snd (await l d items s)) = ipc_calls s"
  by (induction l d items s rule: await.induct; simp)+

lemma await_trace: "await l d items s = (r, s') \<Longrightarrow> trace s' = trace s"
  using frame_await(1)[of l d items s] by (metis snd_conv)

lemma event_wait_eq:
  "event_wait l timeout s =
     (Returned (fst (await l (clock s + timeout) (pending s) s)),
      (snd (await l (clock s + timeout) (pending s) s))
        \<lparr>trace := trace s @ [EventWait l timeout (fst (await l (clock s + timeout) (pending s) s))]\<rparr>)"
  by (auto simp: event_wait_def split: prod.splits dest: await_trace)

lemma wait_ready_post:
  "wait_ready timeout s = (Returned (answer (wait_ready timeout) s), post (wait_ready timeout) s)"
  "process (post (wait_ready timeout) s) = process s"
  "trace (post (wait_ready timeout) s) =
     trace s @ [DebugLog [S ''Waiting for READY signal (timeout='', T timeout, S ''s)''],
                EventWait Ready timeout (answer (wait_ready timeout) s)]
       @ (if answer (wait_ready timeout) s then []
          else [DebugLog [S ''WARNING: Timeout waiting for READY signal'']])"
  by (simp_all add: wait_ready_def and_then_def debug_log_def emit_def event_wait_eq skip_def
      returns_def answer_def post_def)

lemma wait_black_post:
  "wait_black timeout s = (Returned (answer (wait_black timeout) s), post (wait_black timeout) s)"
  "process (post (wait_black timeout) s) = process s"
  "trace (post (wait_black timeout) s) =
     trace s @ [DebugLog [S ''Waiting for BLACK signal (timeout='', T timeout, S ''s)''],
                EventWait Black timeout (answer (wait_black timeout) s)]
       @ (if answer (wait_black timeout) s then []
          else [DebugLog [S ''WARNING: Timeout waiting for BLACK signal'']])"
  by (simp_all add: wait_black_def and_then_def debug_log_def emit_def event_wait_eq skip_def
      returns_def answer_def post_def)

lemma and_then_exit_code:
  "and_then f (\<lambda>_. returns x) s =
     (case f s of
        (Returned u, s') \<Rightarrow> (Returned x, s')
      | (Raised e, s') \<Rightarrow> (Raised e, s')
      | (Holding, s') \<Rightarrow> (Holding, s'))"
  by (simp add: and_then_def returns_def split: prod.splits result.splits)

lemma block_single: "block [f] = f"
proof
  fix s
  show "block [f] s = f s"
    by (cases "f s" rule: prod.exhaust) (auto simp: and_then_def split: result.splits)
qed

lemma block_cons_emit: "block (emit e # fs) s = block fs (s\<lparr>trace := trace s @ [e]\<rparr>)"
  by (simp add: and_then_def emit_def)

lemma block_cons_skip: "block (skip # fs) s = block fs s"
  by (simp add: and_then_def skip_def returns_def)

lemma block_cons_env: "block (env f # fs) s = block fs (f s)"
  by (simp add: and_then_def env_def)

lemma and_then_emit: "and_then (emit e) g s = g () (s\<lparr>trace := trace s @ [e]\<rparr>)"
  by (simp add: and_then_def emit_def)

lemma and_then_env: "and_then (env f) g s = g () (f s)"
  by (simp add: and_then_def env_def)

lemma and_then_skip: "and_then skip g s = g () s"
  by (simp add: and_then_def skip_def returns_def)

lemma and_then_block_nil: "and_then (block []) g s = g () s"
  by (simp add: and_then_def)

lemma and_then_block_emit:
  "and_then (block (emit e # fs)) g s = and_then (block fs) g (s\<lparr>trace := trace s @ [e]\<rparr>)"
  by (simp add: and_then_def emit_def)

lemma and_then_block_skip: "and_then (block (skip # fs)) g s = and_then (block fs) g s"
  by (simp add: and_then_def skip_def returns_def)

lemma and_then_block_env: "and_then (block (env f # fs)) g s = and_then (block fs) g (f s)"
  by (simp add: and_then_def env_def)

lemma and_then_wait_ready:
  "and_then (wait_ready t) g s = g (answer (wait_ready t) s) (post (wait_ready t) s)"
  by (simp add: and_then_def wait_ready_post(1))

lemma and_then_wait_black:
  "and_then (wait_black t) g s = g (answer (wait_black t) s) (post (wait_black t) s)"
  by (simp add: and_then_def wait_black_post(1))

lemma start_found:
  "script_path s = Some p \<Longrightarrow> path_exists w p \<Longrightarrow>
   start w s =
     (Returned True,
      s\<lparr>process := Some [''python3'', p], child_alive := True,
        pending := map (\<lambda>(u, x). (clock s + u, x)) (child_output w),
        reader := Reading,
        trace := trace s @ [DebugLog [S ''Starting animation: '', S p], Popen [''python3'', p]]\<rparr>)"
  by (simp add: start_def and_then_def debug_log_def emit_def spawn_animation_def
      start_reader_thread_def returns_def)

lemmas sequencing =
  block_cons_emit block_cons_skip block_cons_env and_then_emit and_then_env and_then_skip
  and_then_block_nil
  and_then_block_emit and_then_block_skip and_then_block_env block_single
  debug_log_def print_def print_err_def

lemma main_animated:
  assumes "args_animation a \<noteq> ''none''" "animation_script w (args_animation a) = Some p"
    "path_exists w p"
  shows "\<exists>r1 r2 s3.
     main w fuel a initial =
       (case execute_power_action w fuel (args_action a) True (args_hold a) s3 of
          (Returned u, s') \<Rightarrow> (Returned 0, s')
        | (Raised e, s') \<Rightarrow> (Raised e, s')
        | (Holding, s') \<Rightarrow> (Holding, s')) \<and>
     process s3 = Some [''python3'', p] \<and>
     trace s3 =
       [InstallSignalHandlers, InitDebugLog,
        DebugLog [S ''Starting power-manager: action='', S (args_action a),
                  S '', animation='', S (args_animation a)],
        PrintOut [S ''[1/3] Starting '', S (args_animation a), S '' animation...''],
        DebugLog [S ''Starting animation: '', S p],
        Popen [''python3'', p],
        PrintOut [S ''[2/3] Waiting for overlay...''],
        DebugLog [S ''Waiting for READY signal (timeout='', T 5, S ''s)''],
        EventWait Ready 5 r1]
       @ (if r1 then []
          else [DebugLog [S ''WARNING: Timeout waiting for READY signal''],
                PrintErr [S ''WARNING: Animation did not signal READY, proceeding anyway'']])
       @ [PrintOut [S ''[3/3] Animation playing...''],
          DebugLog [S ''Waiting for BLACK signal (timeout='', T 30, S ''s)''],
          EventWait Black 30 r2]
       @ (if r2 then []
          else [DebugLog [S ''WARNING: Timeout waiting for BLACK signal''],
                PrintErr [S ''WARNING: Animation did not signal BLACK, proceeding anyway'']])
       @ [PrintOut [S ''Animation complete.''],
          DebugLog [S ''Executing power action...'']]"
proof -
  define pre where "pre =
       [InstallSignalHandlers, InitDebugLog,
        DebugLog [S ''Starting power-manager: action='', S (args_action a),
                  S '', animation='', S (args_animation a)],
        PrintOut [S ''[1/3] Starting '', S (args_animation a), S '' animation...''],
        DebugLog [S ''Starting animation: '', S p],
        Popen [''python3'', p],
        PrintOut [S ''[2/3] Waiting for overlay...'']]"
  define s1 where "s1 =
    initial\<lparr>script_path := Some p, process := Some [''python3'', p], child_alive := True,
      pending := map (\<lambda>(u, x). (clock initial + u, x)) (child_output w),
      reader := Reading, trace := pre\<rparr>"
  define r1 where "r1 = answer (wait_ready 5) s1"
  define s1' where "s1' = post (wait_ready 5) s1"
  define mid where "mid =
    (if r1 then [] else [PrintErr [S ''WARNING: Animation did not signal READY, proceeding anyway'']])
    @ [PrintOut [S ''[3/3] Animation playing...'']]"
  define s2 where "s2 = s1'\<lparr>trace := trace s1' @ mid\<rparr>"
  define r2 where "r2 = answer (wait_black 30) s2"
  define s2' where "s2' = post (wait_black 30) s2"
  define fin where "fin =
    (if r2 then [] else [PrintErr [S ''WARNING: Animation did not signal BLACK, proceeding anyway'']])
    @ [PrintOut [S ''Animation complete.''], DebugLog [S ''Executing power action...'']]"
  define s3 where "s3 = s2'\<lparr>trace := trace s2' @ fin\<rparr>"
  define tail where "tail = (\<lambda>started.
       if \<not> started then
         and_then (print_err [S ''ERROR: Failed to start animation'']) (\<lambda>_. returns (1::int))
       else
         and_then (print [S ''[2/3] Waiting for overlay...'']) (\<lambda>_.
         and_then (wait_ready 5) (\<lambda>ready.
         and_then
           (block
             [if \<not> ready then
                print_err [S ''WARNING: Animation did not signal READY, proceeding anyway'']
              else skip,
              print [S ''[3/3] Animation playing...'']]) (\<lambda>_.
         and_then (wait_black 30) (\<lambda>black.
         and_then
           (block
             [if \<not> black then
                print_err [S ''WARNING: Animation did not signal BLACK, proceeding anyway'']
              else skip,
              print [S ''Animation complete.''],
              debug_log [S ''Executing power action...''],
              execute_power_action w fuel (args_action a) True (args_hold a)]) (\<lambda>_.
         returns 0))))))"
  define s0 where "s0 =
    initial\<lparr>script_path := Some p, trace :=
       [InstallSignalHandlers, InitDebugLog,
        DebugLog [S ''Starting power-manager: action='', S (args_action a),
                  S '', animation='', S (args_animation a)],
        PrintOut [S ''[1/3] Starting '', S (args_animation a), S '' animation...'']]\<rparr>"
  have e0: "main w fuel a initial = and_then (start w) tail s0"
    unfolding main_def tail_def[symmetric]
    by (simp add: assms sequencing AnimationProcess_def s0_def initial_def del: block.simps)
  have e1: "start w s0 = (Returned True,
      s0\<lparr>process := Some [''python3'', p], child_alive := True,
        pending := map (\<lambda>(u, x). (clock s0 + u, x)) (child_output w),
        reader := Reading,
        trace := trace s0 @ [DebugLog [S ''Starting animation: '', S p], Popen [''python3'', p]]\<rparr>)"
    by (rule start_found) (simp_all add: s0_def assms)
  have e2: "and_then (start w) tail s0 =
      (and_then (wait_ready 5) (\<lambda>ready.
         and_then
           (block
             [if \<not> ready then
                print_err [S ''WARNING: Animation did not signal READY, proceeding anyway'']
              else skip,
              print [S ''[3/3] Animation playing...'']]) (\<lambda>_.
         and_then (wait_black 30) (\<lambda>black.
         and_then
           (block
             [if \<not> black then
                print_err [S ''WARNING: Animation did not signal BLACK, proceeding anyway'']
              else skip,
              print [S ''Animation complete.''],
              debug_log [S ''Executing power action...''],
              execute_power_action w fuel (args_action a) True (args_hold a)]) (\<lambda>_.
         returns 0)))) s1)" (is "_ = ?rhs")
  proof -
    have "and_then (start w) tail s0 = tail True
      (s0\<lparr>process := Some [''python3'', p], child_alive := True,
        pending := map (\<lambda>(u, x). (clock s0 + u, x)) (child_output w),
        reader := Reading,
        trace := trace s0 @ [DebugLog [S ''Starting animation: '', S p], Popen [''python3'', p]]\<rparr>)"
      by (simp only: and_then_def e1 prod.case result.case)
    also have "\<dots> = ?rhs"
      by (simp add: tail_def and_then_emit print_def s1_def s0_def pre_def initial_def
          del: block.simps)
    finally show ?thesis .
  qed
  have e3: "\<dots> =
         and_then (wait_black 30) (\<lambda>black.
         and_then
           (block
             [if \<not> black then
                print_err [S ''WARNING: Animation did not signal BLACK, proceeding anyway'']
              else skip,
              print [S ''Animation complete.''],
              debug_log [S ''Executing power action...''],
              execute_power_action w fuel (args_action a) True (args_hold a)]) (\<lambda>_.
         returns 0)) s2"
    unfolding and_then_wait_ready r1_def[symmetric] s1'_def[symmetric]
    by (simp add: sequencing s2_def mid_def del: block.simps)
  have e4: "\<dots> = and_then (execute_power_action w fuel (args_action a) True (args_hold a))
        (\<lambda>_. returns 0) s3"
    unfolding and_then_wait_black r2_def[symmetric] s2'_def[symmetric]
    by (simp add: sequencing s3_def fin_def del: block.simps)
  have run: "main w fuel a initial =
       (case execute_power_action w fuel (args_action a) True (args_hold a) s3 of
          (Returned u, s') \<Rightarrow> (Returned 0, s')
        | (Raised e, s') \<Rightarrow> (Raised e, s')
        | (Holding, s') \<Rightarrow> (Holding, s'))"
    using e0 e2 e3 e4 by (simp add: and_then_exit_code)
  have p3: "process s3 = Some [''python3'', p]"
    by (simp add: s3_def s2'_def wait_black_post(2) s2_def s1'_def wait_ready_post(2) s1_def)
  have t3: "trace s3 = pre
       @ [DebugLog [S ''Waiting for READY signal (timeout='', T 5, S ''s)''],
          EventWait Ready 5 r1]
       @ (if r1 then []
          else [DebugLog [S ''WARNING: Timeout waiting for READY signal''],
                PrintErr [S ''WARNING: Animation did not signal READY, proceeding anyway'']])
       @ [PrintOut [S ''[3/3] Animation playing...''],
          DebugLog [S ''Waiting for BLACK signal (timeout='', T 30, S ''s)''],
          EventWait Black 30 r2]
       @ (if r2 then []
          else [DebugLog [S ''WARNING: Timeout waiting for BLACK signal''],
                PrintErr [S ''WARNING: Animation did not signal BLACK, proceeding anyway'']])
       @ [PrintOut [S ''Animation complete.''],
          DebugLog [S ''Executing power action...'']]"
  proof -
    have ts1: "trace s1 = pre"
      by (simp add: s1_def)
    have ts1': "trace s1' = trace s1 @
        [DebugLog [S ''Waiting for READY signal (timeout='', T 5, S ''s)''], EventWait Ready 5 r1]
        @ (if r1 then [] else [DebugLog [S ''WARNING: Timeout waiting for READY signal'']])"
      unfolding s1'_def r1_def by (rule wait_ready_post(3))
    have ts2: "trace s2 = trace s1' @ mid"
      by (simp add: s2_def)
    have ts2': "trace s2' = trace s2 @
        [DebugLog [S ''Waiting for BLACK signal (timeout='', T 30, S ''s)''], EventWait Black 30 r2]
        @ (if r2 then [] else [DebugLog [S ''WARNING: Timeout waiting for BLACK signal'']])"
      unfolding s2'_def r2_def by (rule wait_black_post(3))
    have ts3: "trace s3 = trace s2' @ fin"
      by (simp add: s3_def)
    show ?thesis
      by (simp add: ts3 ts2' ts2 ts1' ts1 mid_def fin_def)
  qed
  show ?thesis
    using run p3 t3 unfolding pre_def
    by (intro exI[of _ r1] exI[of _ r2] exI[of _ s3]) simp
qed

text \<open>
  Claim C3. When the animation starts, \<^verbatim>\<open>main\<close> reaches \<^verbatim>\<open>execute_power_action\<close> in a state
  \<open>s3\<close> whose trace is fixed up to the two outcomes \<open>r1\<close> and \<open>r2\<close> of the waits: the wait
  on the ready latch with timeout 5 comes first, the wait on the black latch with timeout
  30 after it, each timeout is followed by its logged and its printed warning, and the only
  subprocess launched so far is the animation. Whatever \<open>r1\<close> and \<open>r2\<close> are, \<^verbatim>\<open>main\<close>
  continues as \<^verbatim>\<open>execute_power_action\<close> from \<open>s3\<close>, and every event of the power action
  comes after the trace of \<open>s3\<close>.
\<close>

theorem handshake_precedes_power_action:
  assumes "args_animation a \<noteq> ''none''" and "animation_script w (args_animation a) = Some p"
    and "path_exists w p"
  shows "\<exists>r1 r2 s3.
     main w fuel a initial =
       (case execute_power_action w fuel (args_action a) True (args_hold a) s3 of
          (Returned u, s') \<Rightarrow> (Returned 0, s')
        | (Raised e, s') \<Rightarrow> (Raised e, s')
        | (Holding, s') \<Rightarrow> (Holding, s')) \<and>
     trace s3 =
       [InstallSignalHandlers, InitDebugLog,
        DebugLog [S ''Starting power-manager: action='', S (args_action a),
                  S '', animation='', S (args_animation a)],
        PrintOut [S ''[1/3] Starting '', S (args_animation a), S '' animation...''],
        DebugLog [S ''Starting animation: '', S p],
        Popen [''python3'', p],
        PrintOut [S ''[2/3] Waiting for overlay...''],
        DebugLog [S ''Waiting for READY signal (timeout='', T 5, S ''s)''],
        EventWait Ready 5 r1]
       @ (if r1 then []
          else [DebugLog [S ''WARNING: Timeout waiting for READY signal''],
                PrintErr [S ''WARNING: Animation did not signal READY, proceeding anyway'']])
       @ [PrintOut [S ''[3/3] Animation playing...''],
          DebugLog [S ''Waiting for BLACK signal (timeout='', T 30, S ''s)''],
          EventWait Black 30 r2]
       @ (if r2 then []
          else [DebugLog [S ''WARNING: Timeout waiting for BLACK signal''],
                PrintErr [S ''WARNING: Animation did not signal BLACK, proceeding anyway'']])
       @ [PrintOut [S ''Animation complete.''],
          DebugLog [S ''Executing power action...'']] \<and>
     commands (trace s3) = [[''python3'', p]] \<and>
     trace (snd (main w fuel a initial)) =
       trace s3 @ new_events s3 (snd (execute_power_action w fuel (args_action a) True (args_hold a) s3))"
proof -
  from main_animated[OF assms, of fuel] obtain r1 r2 s3 where
    run: "main w fuel a initial =
       (case execute_power_action w fuel (args_action a) True (args_hold a) s3 of
          (Returned u, s') \<Rightarrow> (Returned 0, s')
        | (Raised e, s') \<Rightarrow> (Raised e, s')
        | (Holding, s') \<Rightarrow> (Holding, s'))"
    and tr: "trace s3 =
       [InstallSignalHandlers, InitDebugLog,
        DebugLog [S ''Starting power-manager: action='', S (args_action a),
                  S '', animation='', S (args_animation a)],
        PrintOut [S ''[1/3] Starting '', S (args_animation a), S '' animation...''],
        DebugLog [S ''Starting animation: '', S p],
        Popen [''python3'', p],
        PrintOut [S ''[2/3] Waiting for overlay...''],
        DebugLog [S ''Waiting for READY signal (timeout='', T 5, S ''s)''],
        EventWait Ready 5 r1]
       @ (if r1 then []
          else [DebugLog [S ''WARNING: Timeout waiting for READY signal''],
                PrintErr [S ''WARNING: Animation did not signal READY, proceeding anyway'']])
       @ [PrintOut [S ''[3/3] Animation playing...''],
          DebugLog [S ''Waiting for BLACK signal (timeout='', T 30, S ''s)''],
          EventWait Black 30 r2]
       @ (if r2 then []
          else [DebugLog [S ''WARNING: Timeout waiting for BLACK signal''],
                PrintErr [S ''WARNING: Animation did not signal BLACK, proceeding anyway'']])
       @ [PrintOut [S ''Animation complete.''],
          DebugLog [S ''Executing power action...'']]"
    by blast
  have cm: "commands (trace s3) = [[''python3'', p]]"
    unfolding tr by simp
  have sn: "snd (main w fuel a initial) =
      snd (execute_power_action w fuel (args_action a) True (args_hold a) s3)"
    unfolding run by (auto split: prod.splits result.splits)
  have "trace (snd (execute_power_action w fuel (args_action a) True (args_hold a) s3)) =
      trace s3 @ new_events s3 (snd (execute_power_action w fuel (args_action a) True (args_hold a) s3))"
    using adds_new_events[OF grows_execute_power_action] by blast
  with run tr cm sn show ?thesis
    by (intro exI[of _ r1] exI[of _ r2] exI[of _ s3]) simp
qed

lemma silent_shutdown_run:
  "fst (main silent_world 1 shutdown_args initial) = Holding"
  by code_simp

lemma silent_shutdown_trace:
  "effects (trace (snd (main silent_world 1 shutdown_args initial))) =
     [InstallSignalHandlers, InitDebugLog, Popen [''python3'', ''/anim/fire/animate.py''],
      EventWait Ready 5 False, EventWait Black 30 False,
      Popen [''sudo'', ''-A'', ''shutdown'', ''-h'', ''now''], Sleep 1]"
  by code_simp


theorem handshake_precedes_power_action_witness:
  "(\<exists>r1 r2 s3.
     main silent_world 1 shutdown_args initial =
       (case execute_power_action silent_world 1 (args_action shutdown_args) True
               (args_hold shutdown_args) s3 of
          (Returned u, s') \<Rightarrow> (Returned 0, s')
        | (Raised e, s') \<Rightarrow> (Raised e, s')
        | (Holding, s') \<Rightarrow> (Holding, s')) \<and>
     trace s3 =
       [InstallSignalHandlers, InitDebugLog,
        DebugLog [S ''Starting power-manager: action='', S (args_action shutdown_args),
                  S '', animation='', S (args_animation shutdown_args)],
        PrintOut [S ''[1/3] Starting '', S (args_animation shutdown_args), S '' animation...''],
        DebugLog [S ''Starting animation: '', S ''/anim/fire/animate.py''],
        Popen [''python3'', ''/anim/fire/animate.py''],
        PrintOut [S ''[2/3] Waiting for overlay...''],
        DebugLog [S ''Waiting for READY signal (timeout='', T 5, S ''s)''],
        EventWait Ready 5 r1]
       @ (if r1 then []
          else [DebugLog [S ''WARNING: Timeout waiting for READY signal''],
                PrintErr [S ''WARNING: Animation did not signal READY, proceeding anyway'']])
       @ [PrintOut [S ''[3/3] Animation playing...''],
          DebugLog [S ''Waiting for BLACK signal (timeout='', T 30, S ''s)''],
          EventWait Black 30 r2]
       @ (if r2 then []
          else [DebugLog [S ''WARNING: Timeout waiting for BLACK signal''],
                PrintErr [S ''WARNING: Animation did not signal BLACK, proceeding anyway'']])
       @ [PrintOut [S ''Animation complete.''],
          DebugLog [S ''Executing power action...'']] \<and>
     commands (trace s3) = [[''python3'', ''/anim/fire/animate.py'']] \<and>
     trace (snd (main silent_world 1 shutdown_args initial)) =
       trace s3 @ new_events s3 (snd (execute_power_action silent_world 1
          (args_action shutdown_args) True (args_hold shutdown_args) s3)))
   \<and> fst (main silent_world 1 shutdown_args initial) = Holding
   \<and> effects (trace (snd (main silent_world 1 shutdown_args initial))) =
     [InstallSignalHandlers, InitDebugLog, Popen [''python3'', ''/anim/fire/animate.py''],
      EventWait Ready 5 False, EventWait Black 30 False,
      Popen [''sudo'', ''-A'', ''shutdown'', ''-h'', ''now''], Sleep 1]"
proof -
  have a: "args_animation shutdown_args \<noteq> ''none''"
    by (simp add: shutdown_args_def)
  have b: "animation_script silent_world (args_animation shutdown_args) = Some ''/anim/fire/animate.py''"
    by (simp add: shutdown_args_def silent_world_def sample_world_def)
  have c: "path_exists silent_world ''/anim/fire/animate.py''"
    by (simp add: silent_world_def sample_world_def)
  show ?thesis
    using handshake_precedes_power_action[OF a b c, of 1] silent_shutdown_run silent_shutdown_trace
    by blast
qed

text \<open>
  Claim C8, where the code departs from it. When the discovery yields no path, the object
  is built with \<^verbatim>\<open>None\<close> and \<^verbatim>\<open>start\<close> raises \<^verbatim>\<open>TypeError\<close> in \<^verbatim>\<open>os.path.exists\<close>: it
  does not return \<^verbatim>\<open>False\<close>, and \<^verbatim>\<open>main\<close> ends with that exception instead of returning
  1. Nothing is spawned: the trace of the run holds the two set-up events, one log line
  and one print.
\<close>

theorem start_without_path_raises:
  "start w (AnimationProcess None s) = (Raised TypeError, AnimationProcess None s)
   \<and> main (w\<lparr>animation_script := (\<lambda>_. None)\<rparr>) fuel
        \<lparr>args_action = action, args_animation = ''fire'', args_hold = hold_time\<rparr> initial =
      (Raised TypeError,
       initial\<lparr>trace :=
         [InstallSignalHandlers, InitDebugLog,
          DebugLog [S ''Starting power-manager: action='', S action, S '', animation='', S ''fire''],
          PrintOut [S ''[1/3] Starting '', S ''fire'', S '' animation...'']]\<rparr>)"
proof
  show "start w (AnimationProcess None s) = (Raised TypeError, AnimationProcess None s)"
    by (simp add: start_def AnimationProcess_def raise_def)
  have st: "start w0 (s0\<lparr>script_path := None\<rparr>) = (Raised TypeError, s0\<lparr>script_path := None\<rparr>)"
    for w0 s0
    by (simp add: start_def raise_def)
  show "main (w\<lparr>animation_script := (\<lambda>_. None)\<rparr>) fuel
        \<lparr>args_action = action, args_animation = ''fire'', args_hold = hold_time\<rparr> initial =
      (Raised TypeError,
       initial\<lparr>trace :=
         [InstallSignalHandlers, InitDebugLog,
          DebugLog [S ''Starting power-manager: action='', S action, S '', animation='', S ''fire''],
          PrintOut [S ''[1/3] Starting '', S ''fire'', S '' animation...'']]\<rparr>)"
    by (simp add: main_def sequencing AnimationProcess_def initial_def start_def raise_def
        and_then_def[of "start _"] del: block.simps)
qed


section \<open>Properties of the test action\<close>














end
